theory Spec2Isabelle
  imports Main "HOL-Library.Word" "HOL-Library.Char_ord" "HOL-Library.List_Lexorder"
begin

unbundle bit_operations_syntax

section \<open>Errors\<close>

text \<open>
  Go errors as values.  \<open>EOF\<close> is \<open>io.EOF\<close> and \<open>ErrUnexpectedEOF\<close> is
  \<open>io.ErrUnexpectedEOF\<close>, \<open>ErrStopWalk\<close> the package's stop signal, \<open>ErrHeader\<close> and
  \<open>ErrWriteTooLong\<close> and \<open>ErrWriteAfterClose\<close> the errors of \<open>archive/tar\<close>,
  \<open>HeaderError why\<close> its error for a header that no format can encode (another value
  than \<open>ErrHeader\<close>; of its message the model keeps the reason), \<open>ErrGzipHeader\<close> the one
  of \<open>compress/gzip\<close>, \<open>SkipDir\<close> the one of \<open>path/filepath\<close>, \<open>ErrNotExist\<close>, \<open>ErrExist\<close>,
  \<open>ErrNotDir\<close>, \<open>ErrIsDir\<close> and \<open>ErrLoop\<close> the errors of the host's file system, \<open>Panic\<close> a
  run-time panic.  \<open>Errorf m\<close> is \<open>fmt.Errorf\<close> with the message \<open>m\<close>; \<open>Wrapf m e\<close> is
  \<open>fmt.Errorf\<close> whose message ends with \<open>%v\<close> of the error \<open>e\<close> (a new error value, not
  equal to \<open>e\<close>).
\<close>

datatype error =
    EOF
  | ErrUnexpectedEOF
  | ErrStopWalk
  | ErrHeader
  | HeaderError string
  | ErrWriteTooLong
  | ErrWriteAfterClose
  | ErrGzipHeader
  | ErrNotExist
  | ErrExist
  | ErrNotDir
  | ErrLoop
  | ErrIsDir
  | SkipDir
  | Panic
  | Errorf string
  | Wrapf string error

section \<open>Strings and paths\<close>

text \<open>
  \<open>strings.HasSuffix\<close>, and the functions of Go's \<open>path\<close> and \<open>path/filepath\<close> packages
  on a host whose separator is the slash (where the two packages agree and
  \<open>filepath.ToSlash\<close> is the identity).
\<close>

definition HasSuffix :: "string \<Rightarrow> string \<Rightarrow> bool" where
  "HasSuffix s suf \<longleftrightarrow> length s \<ge> length suf \<and> drop (length s - length suf) s = suf"

definition HasPrefix :: "string \<Rightarrow> string \<Rightarrow> bool" where
  "HasPrefix s pre \<longleftrightarrow> length s \<ge> length pre \<and> take (length pre) s = pre"

fun split_slash :: "string \<Rightarrow> string list" where
  "split_slash [] = [[]]"
| "split_slash (c # cs) =
     (if c = CHR ''/'' then [] # split_slash cs
      else case split_slash cs of x # xs \<Rightarrow> (c # x) # xs | [] \<Rightarrow> [[c]])"

fun join_slash :: "string list \<Rightarrow> string" where
  "join_slash [] = []"
| "join_slash [x] = x"
| "join_slash (x # y # ys) = x @ ''/'' @ join_slash (y # ys)"

text \<open>
  The elements of a path that \<open>Clean\<close> keeps, with the stack of elements kept so far
  (top first): a \<open>..\<close> removes the element before it, is dropped at the root, and is
  kept at the front of a relative path.
\<close>

fun clean_elems :: "bool \<Rightarrow> string list \<Rightarrow> string list \<Rightarrow> string list" where
  "clean_elems rooted acc [] = rev acc"
| "clean_elems rooted acc (c # cs) =
     (if c = [] \<or> c = ''.'' then clean_elems rooted acc cs
      else if c = ''..'' then
        (case acc of
           [] \<Rightarrow> if rooted then clean_elems rooted [] cs else clean_elems rooted [''..''] cs
         | a # as \<Rightarrow>
             if a = ''..'' then clean_elems rooted (''..'' # acc) cs
             else clean_elems rooted as cs)
      else clean_elems rooted (c # acc) cs)"

definition IsAbs :: "string \<Rightarrow> bool" where
  "IsAbs p \<longleftrightarrow> HasPrefix p ''/''"

definition Clean :: "string \<Rightarrow> string" where
  "Clean p =
     (let s = (if IsAbs p then ''/'' else []) @ join_slash (clean_elems (IsAbs p) [] (split_slash p))
      in if s = [] then ''.'' else s)"

definition Join :: "string list \<Rightarrow> string" where
  "Join elems =
     (let ne = filter (\<lambda>e. e \<noteq> []) elems
      in if ne = [] then [] else Clean (join_slash ne))"

definition Dir :: "string \<Rightarrow> string" where
  "Dir p = Clean (rev (dropWhile (\<lambda>c. c \<noteq> CHR ''/'') (rev p)))"

definition Base :: "string \<Rightarrow> string" where
  "Base p =
     (if p = [] then ''.''
      else let q = rev (dropWhile (\<lambda>c. c = CHR ''/'') (rev p));
               b = rev (takeWhile (\<lambda>c. c \<noteq> CHR ''/'') (rev q))
           in if b = [] then ''/'' else b)"

text \<open>
  \<open>filepath.Rel\<close>.  The library walks the two cleaned paths element by element up to
  the first difference; the base elements that remain are climbed with \<open>..\<close>, and a
  remaining base element \<open>..\<close> cannot be climbed.  The path \<open>.\<close> has no elements.
\<close>

definition path_elems :: "string \<Rightarrow> string list" where
  "path_elems p = (if p = [] \<or> p = ''.'' then [] else if p = ''/'' then [[]] else split_slash p)"

fun rel_loop :: "string list \<Rightarrow> string list \<Rightarrow> string list \<times> string list" where
  "rel_loop (b # bs) (t # ts) = (if b = t then rel_loop bs ts else (b # bs, t # ts))"
| "rel_loop bs ts = (bs, ts)"

definition Rel :: "string \<Rightarrow> string \<Rightarrow> error + string" where
  "Rel basepath targpath =
     (let base0 = Clean basepath; targ = Clean targpath
      in if targ = base0 then Inr ''.''
         else let base = (if base0 = ''.'' then [] else base0)
              in if IsAbs base \<noteq> IsAbs targ
                 then Inl (Errorf (''Rel: can't make '' @ targpath @ '' relative to '' @ basepath))
                 else case rel_loop (path_elems base) (path_elems targ) of
                   (bs, ts) \<Rightarrow>
                     if bs \<noteq> [] \<and> hd bs = ''..''
                     then Inl (Errorf (''Rel: can't make '' @ targpath @ '' relative to '' @ basepath))
                     else Inr (join_slash (replicate (length bs) ''..'' @ (if ts = [] then [] else [join_slash ts]))))"

definition Abs :: "string \<Rightarrow> string \<Rightarrow> string" where
  "Abs wd p = (if IsAbs p then Clean p else Join [wd, p])"

section \<open>Streams and TAR records\<close>

type_synonym byte = "8 word"

text \<open>
  A TAR header with the fields this package reads or writes.  \<open>Typeflag\<close> is the header's
  type byte, \<open>Mode\<close> and \<open>Size\<close> are Go's \<open>int64\<close> fields.
\<close>

record header =
  Name :: string
  Typeflag :: char
  Size :: int
  Mode :: int
  Linkname :: string
  ModTime :: int

definition TypeReg :: char where "TypeReg = CHR ''0''"
definition TypeRegA :: char where "TypeRegA = CHR 0x00"
definition TypeLink :: char where "TypeLink = CHR ''1''"
definition TypeSymlink :: char where "TypeSymlink = CHR ''2''"
definition TypeChar :: char where "TypeChar = CHR ''3''"
definition TypeBlock :: char where "TypeBlock = CHR ''4''"
definition TypeDir :: char where "TypeDir = CHR ''5''"
definition TypeFifo :: char where "TypeFifo = CHR ''6''"
definition TypeXHeader :: char where "TypeXHeader = CHR ''x''"
definition TypeXGlobalHeader :: char where "TypeXGlobalHeader = CHR ''g''"
definition TypeGNUSparse :: char where "TypeGNUSparse = CHR ''S''"
definition TypeGNULongName :: char where "TypeGNULongName = CHR ''L''"
definition TypeGNULongLink :: char where "TypeGNULongLink = CHR ''K''"

text \<open>
  The content of a file or of a stream: raw bytes, a TAR stream kept as the sequence of
  its records, or gzip framing (of the given length in bytes) around some content.  The
  wire encoding of headers is not modelled; a record \<open>Entry h d\<close> stands for the header
  block of \<open>h\<close> followed by the payload \<open>d\<close> and its padding, \<open>Trailer\<close> for the two
  all-zero end-of-archive blocks, \<open>Corrupt\<close> for a whole block that is no header, and
  \<open>Short n\<close> for the \<open>n\<close> bytes of a block that ends early (fewer than 512).  Headers
  are kept decoded: what a PAX or GNU meta record (type flags \<open>x\<close>, \<open>L\<close>, \<open>K\<close>) says about
  the entry after it is part of that entry's header already.  In a complete record the
  payload has the size that the header announces, none for a header-only type.
\<close>

datatype fdata =
    Bytes "byte list"
  | Tarball "tar_rec list"
  | Gzipped nat fdata
and tar_rec =
    Entry header fdata
  | Trailer
  | Corrupt
  | Short nat

definition blockPadding :: "nat \<Rightarrow> nat" where
  "blockPadding n = (512 - n mod 512) mod 512"

fun fsize :: "fdata \<Rightarrow> nat"
  and rec_size :: "tar_rec \<Rightarrow> nat" where
  "fsize (Bytes bs) = length bs"
| "fsize (Tarball rs) = sum_list (map rec_size rs)"
| "fsize (Gzipped n d) = n"
| "rec_size (Entry h d) = 512 + fsize d + blockPadding (fsize d)"
| "rec_size Trailer = 1024"
| "rec_size Corrupt = 512"
| "rec_size (Short n) = n"

text \<open>
  The first \<open>n\<close> bytes of a content.  Exact on raw bytes and whenever the whole content
  fits; structured content that does not fit is cut to nothing.
\<close>

definition ftake :: "nat \<Rightarrow> fdata \<Rightarrow> fdata" where
  "ftake n d =
     (if fsize d \<le> n then d
      else case d of Bytes bs \<Rightarrow> Bytes (take n bs) | _ \<Rightarrow> Bytes [])"

text \<open>
  An \<open>io.Writer\<close> is a token naming the sink: a file of the host, or a gzip encoder of
  some level around another writer.  An \<open>io.Reader\<close> is the content still to be read.
\<close>

datatype io_writer =
    OsFile string
  | GzipWriter int io_writer

type_synonym io_reader = fdata

subsection \<open>compress/gzip\<close>

definition gzip_NewWriterLevel :: "io_writer \<Rightarrow> int \<Rightarrow> error + io_writer" where
  "gzip_NewWriterLevel w level =
     (if level < - 2 \<or> level > 9 then Inl (Errorf ''gzip: invalid compression level'')
      else Inr (GzipWriter level w))"

definition gzip_NewReader :: "io_reader \<Rightarrow> error + io_reader" where
  "gzip_NewReader r = (case r of Gzipped n d \<Rightarrow> Inr d | _ \<Rightarrow> Inl ErrGzipHeader)"

subsection \<open>archive/tar: the writer\<close>

text \<open>
  \<open>tar.Writer\<close>: the sink it writes to, its sticky error, and the number of payload bytes
  the current entry still expects.  Every operation returns the records it has emitted
  to the sink.  Sinks accept every write.  The message for a payload that was not
  completed leaves out the number of bytes missed.
\<close>

record tar_Writer =
  w_out :: io_writer
  w_err :: "error option"
  w_nb :: nat

definition tar_NewWriter :: "io_writer \<Rightarrow> tar_Writer" where
  "tar_NewWriter out = \<lparr> w_out = out, w_err = None, w_nb = 0 \<rparr>"

definition isHeaderOnlyType :: "char \<Rightarrow> bool" where
  "isHeaderOnlyType flag \<longleftrightarrow>
     flag \<in> {TypeLink, TypeSymlink, TypeChar, TypeBlock, TypeDir, TypeFifo}"

definition tar_Flush :: "tar_Writer \<Rightarrow> error option" where
  "tar_Flush w =
     (case w_err w of Some e \<Rightarrow> Some e
      | None \<Rightarrow> if w_nb w > 0 then Some (Errorf ''archive/tar: missed writing bytes'') else None)"

text \<open>
  \<open>Header.allowedFormats\<close>, as far as it refuses a header; the fields that the model of a
  header lacks (owner, device numbers, access and change time, extended attributes) are
  taken to be zero, and the modification time 0 is the zero time.  A name or link name
  that is not ASCII or is longer than 100 bytes needs a PAX record, which cannot hold a
  NUL; GNU cannot hold a NUL either.  USTAR and PAX keep the mode in seven octal digits,
  GNU in seven bytes.  PAX encodes every size and every time, so these two fields exclude
  no header.
\<close>

definition isASCII :: "string \<Rightarrow> bool" where
  "isASCII s \<longleftrightarrow> list_all (\<lambda>c. (of_char c :: nat) < 128) s"

definition hasNUL :: "string \<Rightarrow> bool" where
  "hasNUL s \<longleftrightarrow> CHR 0x00 \<in> set s"

definition fitsInOctal :: "nat \<Rightarrow> int \<Rightarrow> bool" where
  "fitsInOctal n x \<longleftrightarrow> 0 \<le> x \<and> (n \<ge> 22 \<or> x < 2 ^ ((n - 1) * 3))"

definition fitsInBase256 :: "nat \<Rightarrow> int \<Rightarrow> bool" where
  "fitsInBase256 n x \<longleftrightarrow> n \<ge> 9 \<or> (- (2 ^ ((n - 1) * 8)) \<le> x \<and> x < 2 ^ ((n - 1) * 8))"

definition needsPAX :: "string \<Rightarrow> bool" where
  "needsPAX s \<longleftrightarrow> \<not> isASCII s \<or> length s > 100"

definition meta_flags :: "char set" where
  "meta_flags = {TypeXHeader, TypeGNULongName, TypeGNULongLink}"

definition allowedFormats_err :: "header \<Rightarrow> error option" where
  "allowedFormats_err h =
     (if Typeflag h \<in> {TypeReg, TypeChar, TypeBlock, TypeFifo, TypeGNUSparse} \<and> HasSuffix (Name h) ''/''
      then Some (HeaderError ''filename may not have trailing slash'')
      else if Typeflag h \<in> meta_flags
      then Some (HeaderError ''cannot manually encode TypeXHeader, TypeGNULongName, or TypeGNULongLink headers'')
      else if Typeflag h = TypeXGlobalHeader
              \<and> (Size h \<noteq> 0 \<or> Mode h \<noteq> 0 \<or> Linkname h \<noteq> [] \<or> ModTime h \<noteq> 0)
      then Some (HeaderError ''only PAXRecords should be set for TypeXGlobalHeader'')
      else if \<not> isHeaderOnlyType (Typeflag h) \<and> Size h < 0
      then Some (HeaderError ''negative size on header-only type'')
      else if (needsPAX (Name h) \<and> hasNUL (Name h)) \<or> (needsPAX (Linkname h) \<and> hasNUL (Linkname h))
      then Some (HeaderError ''invalid PAX record'')
      else if \<not> fitsInOctal 8 (Mode h)
              \<and> (Typeflag h = TypeXGlobalHeader \<or> \<not> fitsInBase256 8 (Mode h)
                   \<or> hasNUL (Name h) \<or> hasNUL (Linkname h))
      then Some (HeaderError ''no format can encode the header'')
      else None)"

text \<open>
  \<open>Writer.WriteHeader\<close>: the previous entry must be complete; the legacy flag of a regular
  file is promoted (to a directory when the name ends in a slash); a header that no format
  encodes is refused, and the writer stays usable.
\<close>

definition promote :: "header \<Rightarrow> header" where
  "promote h =
     (if Typeflag h = TypeRegA
      then h\<lparr> Typeflag := (if HasSuffix (Name h) ''/'' then TypeDir else TypeReg) \<rparr>
      else h)"

definition tar_WriteHeader :: "tar_Writer \<Rightarrow> header \<Rightarrow> error option \<times> tar_Writer" where
  "tar_WriteHeader w hdr =
     (case tar_Flush w of Some e \<Rightarrow> (Some e, w)
      | None \<Rightarrow>
          (case allowedFormats_err (promote hdr) of
             Some e \<Rightarrow> (Some e, w)
           | None \<Rightarrow>
               (None, w\<lparr> w_nb := (if isHeaderOnlyType (Typeflag (promote hdr)) then 0
                                   else nat (Size hdr)) \<rparr>)))"

text \<open>
  \<open>io.Copy(tw, f)\<close>: the content is written while it fits the size announced by the
  header; what exceeds it is refused with \<open>ErrWriteTooLong\<close>.  Returns what was written.
\<close>

definition tar_Copy :: "tar_Writer \<Rightarrow> fdata \<Rightarrow> error option \<times> tar_Writer \<times> fdata" where
  "tar_Copy w d =
     (case w_err w of Some e \<Rightarrow> (Some e, w, Bytes [])
      | None \<Rightarrow>
          if fsize d \<le> w_nb w then (None, w\<lparr> w_nb := w_nb w - fsize d \<rparr>, d)
          else (Some ErrWriteTooLong, w\<lparr> w_nb := 0 \<rparr>, ftake (w_nb w) d))"

definition tar_Writer_Close :: "tar_Writer \<Rightarrow> error option \<times> tar_rec list" where
  "tar_Writer_Close w =
     (if w_err w = Some ErrWriteAfterClose then (None, [])
      else case tar_Flush w of Some e \<Rightarrow> (Some e, [])
      | None \<Rightarrow> (None, [Trailer]))"

subsection \<open>archive/tar: the reader\<close>

text \<open>
  \<open>tar.Reader\<close>: the records still to be decoded and the sticky error.  A source that is
  no TAR stream (raw bytes, gzip framing) holds no header: the reader meets the end of
  the stream at once, amid its first block, or after a block that is no header.  Raw bytes
  may begin with all-zero blocks, which end an archive; gzip framing begins with a
  non-zero byte.
\<close>

record tar_Reader =
  r_pending :: "tar_rec list"
  r_err :: "error option"

definition zero_block :: "byte list \<Rightarrow> bool" where
  "zero_block bs \<longleftrightarrow> length bs \<ge> 512 \<and> list_all (\<lambda>b. b = 0) (take 512 bs)"

definition no_header :: "nat \<Rightarrow> tar_rec list" where
  "no_header n = (if n = 0 then [] else if n < 512 then [Short n] else [Corrupt])"

definition raw_records :: "byte list \<Rightarrow> tar_rec list" where
  "raw_records bs =
     (if \<not> zero_block bs then no_header (length bs)
      else if zero_block (drop 512 bs) then [Trailer]
      else no_header (length bs - 512))"

definition tar_NewReader :: "io_reader \<Rightarrow> tar_Reader" where
  "tar_NewReader r =
     (case r of
        Tarball rs \<Rightarrow> \<lparr> r_pending = rs, r_err = None \<rparr>
      | Bytes bs \<Rightarrow> \<lparr> r_pending = raw_records bs, r_err = None \<rparr>
      | Gzipped n d \<Rightarrow> \<lparr> r_pending = no_header n, r_err = None \<rparr>)"

text \<open>
  \<open>Reader.Next\<close>.  The reader consumes the meta records (type flags \<open>x\<close>, \<open>L\<close>, \<open>K\<close>) and
  hands the entry after them to the caller, with the legacy flag of a regular file
  promoted as in the writer.  Of a PAX global header (type flag \<open>g\<close>) it hands on the
  name and the type flag only, and it has read the payload itself.  An error is kept for
  the calls that follow.
\<close>

fun is_meta :: "tar_rec \<Rightarrow> bool" where
  "is_meta (Entry h d) = (Typeflag h \<in> meta_flags)"
| "is_meta r = False"

definition handed :: "header \<Rightarrow> fdata \<Rightarrow> header \<times> fdata" where
  "handed h d =
     (if Typeflag h = TypeXGlobalHeader
      then (\<lparr> Name = Name h, Typeflag = TypeXGlobalHeader, Size = 0, Mode = 0, Linkname = [],
              ModTime = 0 \<rparr>, Bytes [])
      else (promote h, d))"

definition tar_Next :: "tar_Reader \<Rightarrow> (error + header \<times> fdata) \<times> tar_Reader" where
  "tar_Next r =
     (case r_err r of Some e \<Rightarrow> (Inl e, r)
      | None \<Rightarrow>
          (case dropWhile is_meta (r_pending r) of
             [] \<Rightarrow> (Inl EOF, r\<lparr> r_pending := [], r_err := Some EOF \<rparr>)
           | Trailer # rest \<Rightarrow> (Inl EOF, r\<lparr> r_pending := Trailer # rest, r_err := Some EOF \<rparr>)
           | Corrupt # rest \<Rightarrow> (Inl ErrHeader, r\<lparr> r_pending := Corrupt # rest, r_err := Some ErrHeader \<rparr>)
           | Short n # rest \<Rightarrow>
               (Inl ErrUnexpectedEOF, r\<lparr> r_pending := Short n # rest, r_err := Some ErrUnexpectedEOF \<rparr>)
           | Entry h d # rest \<Rightarrow> (Inr (handed h d), r\<lparr> r_pending := rest \<rparr>)))"

section \<open>os.FileMode and file infos\<close>

type_synonym FileMode = "32 word"

definition ModeDir :: FileMode where "ModeDir = 0x80000000"
definition ModeSymlink :: FileMode where "ModeSymlink = 0x08000000"
definition ModeDevice :: FileMode where "ModeDevice = 0x04000000"
definition ModeNamedPipe :: FileMode where "ModeNamedPipe = 0x02000000"
definition ModeSocket :: FileMode where "ModeSocket = 0x01000000"
definition ModeSetuid :: FileMode where "ModeSetuid = 0x00800000"
definition ModeSetgid :: FileMode where "ModeSetgid = 0x00400000"
definition ModeCharDevice :: FileMode where "ModeCharDevice = 0x00200000"
definition ModeSticky :: FileMode where "ModeSticky = 0x00100000"
definition ModeIrregular :: FileMode where "ModeIrregular = 0x00080000"
definition ModePerm :: FileMode where "ModePerm = 0x1FF"

definition ModeType :: FileMode where
  "ModeType = ModeDir OR ModeSymlink OR ModeNamedPipe OR ModeSocket OR ModeDevice
              OR ModeCharDevice OR ModeIrregular"

definition Mode_IsDir :: "FileMode \<Rightarrow> bool" where
  "Mode_IsDir m \<longleftrightarrow> m AND ModeDir \<noteq> 0"

definition Mode_IsRegular :: "FileMode \<Rightarrow> bool" where
  "Mode_IsRegular m \<longleftrightarrow> m AND ModeType = 0"

definition Mode_Perm :: "FileMode \<Rightarrow> FileMode" where
  "Mode_Perm m = m AND ModePerm"

text \<open>
  Modelled from the spec: the package's \<open>FileInfo\<close> and \<open>File\<close> types (their declarations are
  missing from the sources of the repository).  A \<open>FileInfo\<close> is an \<open>os.FileInfo\<close> with a
  custom name, the archive-relative name of the entry (spec 3 and 4.3); a \<open>File\<close> is an
  Entry: the file info, the format's header when the entry was read from an archive, and
  the optional content stream.  An absent field is Go's \<open>nil\<close>.
\<close>

record FileInfo =
  fi_Name :: string
  fi_Size :: int
  fi_Mode :: FileMode
  fi_ModTime :: int
  CustomName :: string

definition FileInfo_Name :: "FileInfo \<Rightarrow> string" where
  "FileInfo_Name fi = (if CustomName fi \<noteq> [] then CustomName fi else fi_Name fi)"

definition FileInfo_IsDir :: "FileInfo \<Rightarrow> bool" where
  "FileInfo_IsDir fi = Mode_IsDir (fi_Mode fi)"

record File =
  File_FileInfo :: "FileInfo option"
  File_Header :: "header option"
  File_ReadCloser :: "fdata option"

subsection \<open>tar.FileInfoHeader\<close>

definition c_ISUID :: int where "c_ISUID = 2048"
definition c_ISGID :: int where "c_ISGID = 1024"
definition c_ISVTX :: int where "c_ISVTX = 512"

definition tar_FileInfoHeader :: "FileInfo \<Rightarrow> string \<Rightarrow> error + header" where
  "tar_FileInfoHeader fi link =
     (let fm = fi_Mode fi;
          h = \<lparr> Name = FileInfo_Name fi, Typeflag = TypeRegA, Size = 0,
                Mode = uint (Mode_Perm fm), Linkname = [], ModTime = fi_ModTime fi \<rparr>;
          bits = (if fm AND ModeSetuid \<noteq> 0 then c_ISUID else 0)
               + (if fm AND ModeSetgid \<noteq> 0 then c_ISGID else 0)
               + (if fm AND ModeSticky \<noteq> 0 then c_ISVTX else 0);
          fin = (\<lambda>h. Inr (h\<lparr> Mode := Mode h + bits \<rparr>))
      in if Mode_IsRegular fm then fin (h\<lparr> Typeflag := TypeReg, Size := fi_Size fi \<rparr>)
         else if FileInfo_IsDir fi then fin (h\<lparr> Typeflag := TypeDir, Name := Name h @ ''/'' \<rparr>)
         else if fm AND ModeSymlink \<noteq> 0 then fin (h\<lparr> Typeflag := TypeSymlink, Linkname := link \<rparr>)
         else if fm AND ModeDevice \<noteq> 0 then
           (if fm AND ModeCharDevice \<noteq> 0 then fin (h\<lparr> Typeflag := TypeChar \<rparr>)
            else fin (h\<lparr> Typeflag := TypeBlock \<rparr>))
         else if fm AND ModeNamedPipe \<noteq> 0 then fin (h\<lparr> Typeflag := TypeFifo \<rparr>)
         else if fm AND ModeSocket \<noteq> 0 then Inl (Errorf ''archive/tar: sockets not supported'')
         else Inl (Errorf ''archive/tar: unknown file mode''))"

section \<open>The Tar handle\<close>

datatype cleanup = CloseGzipWriter | CloseGzipReader

text \<open>
  The handle of \<open>tar.go\<close>, with the three fields that \<open>targz.go\<close> assigns:
  \<open>writerWrapFn\<close>, \<open>readerWrapFn\<close> and \<open>cleanupWrapFn\<close>.
\<close>

record Tar =
  OverwriteExisting :: bool
  MkdirAll :: bool
  ImplicitTopLevelFolder :: bool
  ContinueOnError :: bool
  tw :: "tar_Writer option"
  tr :: "tar_Reader option"
  writerWrapFn :: "(io_writer \<Rightarrow> error + io_writer) option"
  readerWrapFn :: "(io_reader \<Rightarrow> error + io_reader) option"
  cleanupWrapFn :: "cleanup option"

definition DefaultTar :: Tar where
  "DefaultTar = \<lparr> OverwriteExisting = False, MkdirAll = True, ImplicitTopLevelFolder = False,
     ContinueOnError = False, tw = None, tr = None, writerWrapFn = None, readerWrapFn = None,
     cleanupWrapFn = None \<rparr>"

text \<open>\<open>Tar.Create\<close>, tar.go lines 276 to 282.\<close>

definition Create :: "Tar \<Rightarrow> io_writer \<Rightarrow> error option \<times> Tar" where
  "Create t out =
     (if tw t \<noteq> None then (Some (Errorf ''tar archive is already created for writing''), t)
      else (None, t\<lparr> tw := Some (tar_NewWriter out) \<rparr>))"

text \<open>
  \<open>Tar.Write\<close>, tar.go lines 285 to 321.  Returns the error, the handle and the records
  emitted to the sink.
\<close>

definition Write :: "Tar \<Rightarrow> File \<Rightarrow> error option \<times> Tar \<times> tar_rec list" where
  "Write t f =
     (case tw t of
        None \<Rightarrow> (Some (Errorf ''tar archive was not created for writing first''), t, [])
      | Some w \<Rightarrow>
     (case File_FileInfo f of
        None \<Rightarrow> (Some (Errorf ''no file info''), t, [])
      | Some fi \<Rightarrow>
          if FileInfo_Name fi = [] then (Some (Errorf ''missing file name''), t, [])
          else
     (case File_ReadCloser f of
        None \<Rightarrow> (Some (Errorf (FileInfo_Name fi @ '': no way to read file contents'')), t, [])
      | Some content \<Rightarrow>
     (case tar_FileInfoHeader fi (FileInfo_Name fi) of
        Inl e \<Rightarrow> (Some (Wrapf (FileInfo_Name fi @ '': making header: '') e), t, [])
      | Inr hdr \<Rightarrow>
     (case tar_WriteHeader w hdr of
        (Some e, w') \<Rightarrow> (Some (Wrapf (Name hdr @ '': writing header: '') e), t\<lparr> tw := Some w' \<rparr>, [])
      | (None, w') \<Rightarrow>
          if FileInfo_IsDir fi then (None, t\<lparr> tw := Some w' \<rparr>, [Entry hdr (Bytes [])])
          else if Typeflag hdr = TypeReg then
            (case tar_Copy w' content of
               (Some e, w'', written) \<Rightarrow>
                 (Some (Wrapf (FileInfo_Name fi @ '': copying contents: '') e),
                  t\<lparr> tw := Some w'' \<rparr>, [Entry hdr written])
             | (None, w'', written) \<Rightarrow> (None, t\<lparr> tw := Some w'' \<rparr>, [Entry hdr written]))
          else (None, t\<lparr> tw := Some w' \<rparr>, [Entry hdr (Bytes [])]))))))"

text \<open>\<open>Tar.Open\<close>, tar.go lines 325 to 331.\<close>

definition Open :: "Tar \<Rightarrow> io_reader \<Rightarrow> error option \<times> Tar" where
  "Open t inp =
     (if tr t \<noteq> None then (Some (Errorf ''tar archive is already open for reading''), t)
      else (None, t\<lparr> tr := Some (tar_NewReader inp) \<rparr>))"

subsection \<open>Header.FileInfo\<close>

text \<open>
  The file info of a header read from an archive: the mode is rebuilt from the permission
  bits, the file-type bits of the header's mode, and the type flag.
\<close>

definition header_Mode :: "header \<Rightarrow> FileMode" where
  "header_Mode h =
     (let m = (word_of_int (Mode h) :: 32 word);
          fmt = m AND NOT 0xFFF
      in Mode_Perm m
         OR (if m AND 0x800 \<noteq> 0 then ModeSetuid else 0)
         OR (if m AND 0x400 \<noteq> 0 then ModeSetgid else 0)
         OR (if m AND 0x200 \<noteq> 0 then ModeSticky else 0)
         OR (if fmt = 0x4000 then ModeDir
             else if fmt = 0x1000 then ModeNamedPipe
             else if fmt = 0xA000 then ModeSymlink
             else if fmt = 0x6000 then ModeDevice
             else if fmt = 0x2000 then ModeDevice OR ModeCharDevice
             else if fmt = 0xC000 then ModeSocket
             else 0)
         OR (if Typeflag h = TypeSymlink then ModeSymlink
             else if Typeflag h = TypeChar then ModeDevice OR ModeCharDevice
             else if Typeflag h = TypeBlock then ModeDevice
             else if Typeflag h = TypeDir then ModeDir
             else if Typeflag h = TypeFifo then ModeNamedPipe
             else 0))"

definition header_FileInfo :: "header \<Rightarrow> FileInfo" where
  "header_FileInfo h =
     \<lparr> fi_Name = (if Mode_IsDir (header_Mode h) then Base (Clean (Name h)) else Base (Name h)),
       fi_Size = Size h, fi_Mode = header_Mode h, fi_ModTime = ModTime h, CustomName = [] \<rparr>"

text \<open>\<open>Tar.Read\<close>, tar.go lines 337 to 354.\<close>

definition Read :: "Tar \<Rightarrow> (error + File) \<times> Tar" where
  "Read t =
     (case tr t of
        None \<Rightarrow> (Inl (Errorf ''tar archive is not open''), t)
      | Some r \<Rightarrow>
          (case tar_Next r of
             (Inl e, r') \<Rightarrow> (Inl e, t\<lparr> tr := Some r' \<rparr>)
           | (Inr (hdr, d), r') \<Rightarrow>
               (Inr \<lparr> File_FileInfo = Some (header_FileInfo hdr), File_Header = Some hdr,
                      File_ReadCloser = Some d \<rparr>,
                t\<lparr> tr := Some r' \<rparr>)))"

text \<open>
  \<open>Tar.Close\<close>, tar.go lines 357 to 367.  Returns the error, the handle and the records
  emitted to the sink of the writer.
\<close>

definition Close :: "Tar \<Rightarrow> error option \<times> Tar \<times> tar_rec list" where
  "Close t =
     (let t1 = (if tr t \<noteq> None then t\<lparr> tr := None \<rparr> else t)
      in case tw t1 of
           Some w \<Rightarrow> (case tar_Writer_Close w of (e, out) \<Rightarrow> (e, t1\<lparr> tw := None \<rparr>, out))
         | None \<Rightarrow> (None, t1, []))"

section \<open>The compressed variant\<close>

text \<open>\<open>TarGz\<close> of targz.go: the embedded handle and the compression level.\<close>

record TarGz =
  tgz_Tar :: Tar
  CompressionLevel :: int

definition DefaultTarGz :: TarGz where
  "DefaultTarGz = \<lparr> tgz_Tar = DefaultTar, CompressionLevel = - 1 \<rparr>"

text \<open>\<open>TarGz.wrapWriter\<close> and \<open>TarGz.wrapReader\<close>, targz.go lines 70 to 92.\<close>

definition wrapWriter :: "TarGz \<Rightarrow> TarGz" where
  "wrapWriter tgz =
     tgz\<lparr> tgz_Tar := (tgz_Tar tgz)\<lparr>
       writerWrapFn := Some (\<lambda>w. gzip_NewWriterLevel w (CompressionLevel tgz)),
       cleanupWrapFn := Some CloseGzipWriter \<rparr> \<rparr>"

definition wrapReader :: "TarGz \<Rightarrow> TarGz" where
  "wrapReader tgz =
     tgz\<lparr> tgz_Tar := (tgz_Tar tgz)\<lparr>
       readerWrapFn := Some gzip_NewReader,
       cleanupWrapFn := Some CloseGzipReader \<rparr> \<rparr>"

text \<open>
  \<open>TarGz.Create\<close>, targz.go lines 50 to 53.  The body calls \<open>tgz.Create\<close>, the method
  itself; a call that does not return is \<open>None\<close>.
\<close>

partial_function (option) TarGz_Create :: "TarGz \<Rightarrow> io_writer \<Rightarrow> (error option \<times> TarGz) option" where
  "TarGz_Create tgz out = TarGz_Create (wrapWriter tgz) out"

text \<open>\<open>TarGz.Open\<close>, targz.go lines 57 to 60.\<close>

definition TarGz_Open :: "TarGz \<Rightarrow> io_reader \<Rightarrow> error option \<times> TarGz" where
  "TarGz_Open tgz inp =
     (let tgz1 = wrapReader tgz
      in case Open (tgz_Tar tgz1) inp of (e, t') \<Rightarrow> (e, tgz1\<lparr> tgz_Tar := t' \<rparr>))"

text \<open>\<open>Read\<close> and \<open>Close\<close> of the compressed variant are the methods of the embedded handle.\<close>

definition TarGz_Read :: "TarGz \<Rightarrow> (error + File) \<times> TarGz" where
  "TarGz_Read tgz = (case Read (tgz_Tar tgz) of (r, t') \<Rightarrow> (r, tgz\<lparr> tgz_Tar := t' \<rparr>))"

definition TarGz_Close :: "TarGz \<Rightarrow> error option \<times> TarGz \<times> tar_rec list" where
  "TarGz_Close tgz = (case Close (tgz_Tar tgz) of (e, t', out) \<Rightarrow> (e, tgz\<lparr> tgz_Tar := t' \<rparr>, out))"

section \<open>The host: file system and log\<close>

text \<open>
  A node of the file system: its mode (type and permission bits), its content (of a
  regular file) and its target (of a symbolic link).  The file system maps cleaned
  absolute paths to nodes; the root directory always exists.  Symbolic links are followed
  as the last element of a path only.  The log holds what \<open>log.Printf\<close> has printed.
\<close>

record node =
  n_mode :: FileMode
  n_data :: fdata
  n_link :: string

record world =
  cwd :: string
  fs :: "(string \<times> node) list"
  logs :: "error list"

definition fs_lookup :: "world \<Rightarrow> string \<Rightarrow> node option" where
  "fs_lookup w p = map_of (fs w) (Abs (cwd w) p)"

definition fs_put :: "world \<Rightarrow> string \<Rightarrow> node \<Rightarrow> world" where
  "fs_put w p n =
     w\<lparr> fs := (Abs (cwd w) p, n) # filter (\<lambda>kv. fst kv \<noteq> Abs (cwd w) p) (fs w) \<rparr>"

definition log_Printf :: "world \<Rightarrow> error \<Rightarrow> world" where
  "log_Printf w e = w\<lparr> logs := logs w @ [e] \<rparr>"

definition is_directory :: "world \<Rightarrow> string \<Rightarrow> bool" where
  "is_directory w p \<longleftrightarrow>
     Abs (cwd w) p = ''/'' \<or>
     (case fs_lookup w p of None \<Rightarrow> False | Some n \<Rightarrow> Mode_IsDir (n_mode n))"

definition node_FileInfo :: "string \<Rightarrow> node \<Rightarrow> FileInfo" where
  "node_FileInfo p n =
     \<lparr> fi_Name = Base p, fi_Size = int (fsize (n_data n)), fi_Mode = n_mode n, fi_ModTime = 0,
       CustomName = [] \<rparr>"

definition os_Lstat :: "world \<Rightarrow> string \<Rightarrow> error + FileInfo" where
  "os_Lstat w p =
     (case fs_lookup w p of None \<Rightarrow> Inl ErrNotExist | Some n \<Rightarrow> Inr (node_FileInfo p n))"

fun follow :: "nat \<Rightarrow> world \<Rightarrow> string \<Rightarrow> error + node" where
  "follow 0 w p = Inl ErrLoop"
| "follow (Suc k) w p =
     (case fs_lookup w p of
        None \<Rightarrow> Inl ErrNotExist
      | Some n \<Rightarrow>
          if n_mode n AND ModeSymlink \<noteq> 0
          then follow k w (if IsAbs (n_link n) then n_link n
                           else Join [Dir (Abs (cwd w) p), n_link n])
          else Inr n)"

definition os_Stat :: "world \<Rightarrow> string \<Rightarrow> error + FileInfo" where
  "os_Stat w p = (case follow 40 w p of Inl e \<Rightarrow> Inl e | Inr n \<Rightarrow> Inr (node_FileInfo p n))"

definition os_Open :: "world \<Rightarrow> string \<Rightarrow> error + fdata" where
  "os_Open w p = (case follow 40 w p of Inl e \<Rightarrow> Inl e | Inr n \<Rightarrow> Inr (n_data n))"

text \<open>\<open>os.Create\<close>: an existing file is truncated, a new one gets the mode 0644 and needs
  its directory to exist.  (A symbolic link at the path is truncated like a file, not
  followed.)\<close>

definition os_Create :: "world \<Rightarrow> string \<Rightarrow> error + world" where
  "os_Create w p =
     (case fs_lookup w p of
        Some n \<Rightarrow>
          if Mode_IsDir (n_mode n) then Inl ErrIsDir
          else Inr (fs_put w p (n\<lparr> n_data := Bytes [] \<rparr>))
      | None \<Rightarrow>
          if is_directory w (Dir (Abs (cwd w) p))
          then Inr (fs_put w p \<lparr> n_mode = 0x1A4, n_data = Bytes [], n_link = [] \<rparr>)
          else Inl ErrNotExist)"

text \<open>\<open>os.MkdirAll\<close> with mode 0755, along the prefixes of the absolute path.\<close>

definition path_prefixes :: "string \<Rightarrow> string list" where
  "path_prefixes a =
     (let es = filter (\<lambda>e. e \<noteq> []) (split_slash a)
      in map (\<lambda>i. ''/'' @ join_slash (take i es)) [1 ..< Suc (length es)])"

fun mkdir_each :: "world \<Rightarrow> string list \<Rightarrow> error + world" where
  "mkdir_each w [] = Inr w"
| "mkdir_each w (p # ps) =
     (case fs_lookup w p of
        None \<Rightarrow> mkdir_each (fs_put w p \<lparr> n_mode = ModeDir OR 0x1ED, n_data = Bytes [], n_link = [] \<rparr>) ps
      | Some n \<Rightarrow> if Mode_IsDir (n_mode n) then mkdir_each w ps else Inl ErrNotDir)"

definition os_MkdirAll :: "world \<Rightarrow> string \<Rightarrow> error + world" where
  "os_MkdirAll w p = mkdir_each w (path_prefixes (Abs (cwd w) p))"

text \<open>The names in a directory, sorted, as \<open>filepath.Walk\<close> reads them.\<close>

definition readDirNames :: "world \<Rightarrow> string \<Rightarrow> string list" where
  "readDirNames w p =
     sort (map (\<lambda>kv. Base (fst kv))
       (filter (\<lambda>kv. fst kv \<noteq> Abs (cwd w) p \<and> Dir (fst kv) = Abs (cwd w) p) (fs w)))"

text \<open>
  \<open>filepath.Walk\<close> and its helper \<open>walk\<close>.  The first argument bounds the depth of the
  descent; a walk that exceeds it has no result.
\<close>

fun walk :: "nat \<Rightarrow> world \<Rightarrow> (string \<Rightarrow> FileInfo option \<Rightarrow> error option \<Rightarrow> 's \<Rightarrow> error option \<times> 's) \<Rightarrow>
    string \<Rightarrow> FileInfo \<Rightarrow> 's \<Rightarrow> (error option \<times> 's) option"
  and walk_names :: "nat \<Rightarrow> world \<Rightarrow> (string \<Rightarrow> FileInfo option \<Rightarrow> error option \<Rightarrow> 's \<Rightarrow> error option \<times> 's) \<Rightarrow>
    string \<Rightarrow> string list \<Rightarrow> 's \<Rightarrow> (error option \<times> 's) option" where
  "walk 0 w fn path info s = None"
| "walk (Suc k) w fn path info s =
     (if \<not> FileInfo_IsDir info then Some (fn path (Some info) None s)
      else case fn path (Some info) None s of
             (Some e, s1) \<Rightarrow> Some (Some e, s1)
           | (None, s1) \<Rightarrow> walk_names k w fn path (readDirNames w path) s1)"
| "walk_names k w fn path [] s = Some (None, s)"
| "walk_names k w fn path (name # names) s =
     (let filename = Join [path, name]
      in case os_Lstat w filename of
           Inl err \<Rightarrow>
             (case fn filename None (Some err) s of
                (Some e, s1) \<Rightarrow> if e \<noteq> SkipDir then Some (Some e, s1)
                                else walk_names k w fn path names s1
              | (None, s1) \<Rightarrow> walk_names k w fn path names s1)
         | Inr fileInfo \<Rightarrow>
             (case walk k w fn filename fileInfo s of
                None \<Rightarrow> None
              | Some (Some e, s1) \<Rightarrow>
                  if \<not> FileInfo_IsDir fileInfo \<or> e \<noteq> SkipDir then Some (Some e, s1)
                  else walk_names k w fn path names s1
              | Some (None, s1) \<Rightarrow> walk_names k w fn path names s1))"

definition filepath_Walk :: "world \<Rightarrow> string \<Rightarrow>
    (string \<Rightarrow> FileInfo option \<Rightarrow> error option \<Rightarrow> 's \<Rightarrow> error option \<times> 's) \<Rightarrow> 's \<Rightarrow> (error option \<times> 's) option" where
  "filepath_Walk w root fn s =
     (case (case os_Lstat w root of
              Inl err \<Rightarrow> Some (fn root None (Some err) s)
            | Inr info \<Rightarrow> walk (Suc (length (fs w))) w fn root info s) of
        None \<Rightarrow> None
      | Some (Some e, s1) \<Rightarrow> if e = SkipDir then Some (None, s1) else Some (Some e, s1)
      | Some (None, s1) \<Rightarrow> Some (None, s1))"

section \<open>Helpers of the package\<close>

text \<open>
  Modelled from the spec: \<open>fileExists\<close>, the \<open>exists(path)\<close> of the file-system
  collaborator (spec 6); its source is missing from the sources of the repository.
\<close>

definition fileExists :: "world \<Rightarrow> string \<Rightarrow> bool" where
  "fileExists w p \<longleftrightarrow> fs_lookup w p \<noteq> None"

text \<open>
  Modelled from the spec: \<open>mkdir\<close>, which creates a directory and its missing ancestors
  idempotently (spec 4.4 and \<open>mkdirAll\<close> of spec 6); its source is missing from the sources of
  the repository.
\<close>

definition mkdir :: "world \<Rightarrow> string \<Rightarrow> error option \<times> world" where
  "mkdir w dirPath =
     (case os_MkdirAll w dirPath of
        Inl e \<Rightarrow> (Some (Wrapf (dirPath @ '': making directory: '') e), w)
      | Inr w1 \<Rightarrow> (None, w1))"

text \<open>
  Modelled from the spec: \<open>writeNewFile\<close>, which creates a file with the entry's
  permission bits and copies the content stream into it (spec 4.4, \<open>create-for-write\<close> of
  spec 6); its source is missing from the sources of the repository.  The spec does not say what happens
  when the directory of the file is missing; here it is created first, with its ancestors.
  Reading a \<open>nil\<close> content stream panics.
\<close>

definition writeNewFile :: "world \<Rightarrow> string \<Rightarrow> fdata option \<Rightarrow> FileMode \<Rightarrow> error option \<times> world" where
  "writeNewFile w fpath content fm =
     (case os_MkdirAll w (Dir fpath) of
        Inl e \<Rightarrow> (Some (Wrapf (fpath @ '': making directory for file: '') e), w)
      | Inr w1 \<Rightarrow>
          (case os_Create w1 fpath of
             Inl e \<Rightarrow> (Some (Wrapf (fpath @ '': creating new file: '') e), w1)
           | Inr w2 \<Rightarrow>
               (case content of
                  None \<Rightarrow> (Some Panic, w2)
                | Some d \<Rightarrow>
                    (None, fs_put w2 fpath \<lparr> n_mode = Mode_Perm fm, n_data = d, n_link = [] \<rparr>))))"

text \<open>
  Modelled from the spec: \<open>writeNewSymbolicLink\<close>, which creates a symbolic link that
  points at the recorded target, verbatim (spec 4.4, \<open>createSymlink\<close> of spec 6); its
  source is missing from the sources of the repository.  Missing ancestors are created as for a file.
\<close>

definition writeNewSymbolicLink :: "world \<Rightarrow> string \<Rightarrow> string \<Rightarrow> error option \<times> world" where
  "writeNewSymbolicLink w fpath target =
     (case os_MkdirAll w (Dir fpath) of
        Inl e \<Rightarrow> (Some (Wrapf (fpath @ '': making directory for file: '') e), w)
      | Inr w1 \<Rightarrow>
          if fileExists w1 fpath then (Some (Wrapf (fpath @ '': making symbolic link for: '') ErrExist), w1)
          else (None, fs_put w1 fpath \<lparr> n_mode = ModeSymlink OR ModePerm, n_data = Bytes [], n_link = target \<rparr>))"

text \<open>
  Modelled from the spec: \<open>writeNewHardLink\<close>, which creates at the first path a hard link
  to the existing second path (spec 4.4, \<open>createHardlink(path, existingPath)\<close> of spec 6);
  its source is missing from the sources of the repository.  The new path gets the node of the existing
  one; a missing or directory target and an existing new path are errors.
\<close>

definition writeNewHardLink :: "world \<Rightarrow> string \<Rightarrow> string \<Rightarrow> error option \<times> world" where
  "writeNewHardLink w fpath target =
     (case os_MkdirAll w (Dir fpath) of
        Inl e \<Rightarrow> (Some (Wrapf (fpath @ '': making directory for file: '') e), w)
      | Inr w1 \<Rightarrow>
          (case fs_lookup w1 target of
             None \<Rightarrow> (Some (Wrapf (fpath @ '': making hard link for: '') ErrNotExist), w1)
           | Some n \<Rightarrow>
               if Mode_IsDir (n_mode n) then (Some (Wrapf (fpath @ '': making hard link for: '') ErrIsDir), w1)
               else if fileExists w1 fpath then (Some (Wrapf (fpath @ '': making hard link for: '') ErrExist), w1)
               else (None, fs_put w1 fpath n)))"

text \<open>
  Modelled from the spec: \<open>within\<close>, the path-safety gate (spec 4.5): the candidate, after
  normalization, is the target or has the target followed by a separator as a prefix.
  Its source is missing from the sources of the repository.
\<close>

definition within :: "string \<Rightarrow> string \<Rightarrow> bool" where
  "within target candidate \<longleftrightarrow>
     Clean candidate = target \<or> HasPrefix (Clean candidate) (target @ ''/'')"

text \<open>
  Modelled from the spec: \<open>multipleTopLevels\<close> (spec 4.6), true iff more than one distinct
  first path component is observed, and \<open>folderNameFromFileName\<close> (spec 4.3), the base name
  with the extension stripped.  Their sources are missing from the sources of the repository.
\<close>

definition first_component :: "string \<Rightarrow> string" where
  "first_component p = (case filter (\<lambda>e. e \<noteq> []) (split_slash p) of [] \<Rightarrow> [] | e # es \<Rightarrow> e)"

definition multipleTopLevels :: "string list \<Rightarrow> bool" where
  "multipleTopLevels paths \<longleftrightarrow> length (remdups (map first_component paths)) > 1"

definition folderNameFromFileName :: "string \<Rightarrow> string" where
  "folderNameFromFileName filename = takeWhile (\<lambda>c. c \<noteq> CHR ''.'') (Base filename)"

section \<open>Unpacking\<close>

text \<open>\<open>Tar.untarFile\<close>, tar.go lines 184 to 209.\<close>

definition untarFile :: "Tar \<Rightarrow> File \<Rightarrow> string \<Rightarrow> world \<Rightarrow> error option \<times> world" where
  "untarFile t f to w =
     (case File_FileInfo f of
        None \<Rightarrow> (Some Panic, w)
      | Some fi \<Rightarrow>
          if \<not> FileInfo_IsDir fi \<and> \<not> OverwriteExisting t \<and> fileExists w to
          then (Some (Errorf (''file already exists: '' @ to)), w)
          else
     (case File_Header f of
        None \<Rightarrow> (Some (Errorf ''expected header to be *tar.Header''), w)
      | Some hdr \<Rightarrow>
          if Typeflag hdr = TypeDir then mkdir w to
          else if Typeflag hdr \<in> {TypeReg, TypeRegA, TypeChar, TypeBlock, TypeFifo}
            then writeNewFile w to (File_ReadCloser f) (fi_Mode fi)
          else if Typeflag hdr = TypeSymlink then writeNewSymbolicLink w to (Linkname hdr)
          else if Typeflag hdr = TypeLink then writeNewHardLink w to (Join [to, Linkname hdr])
          else if Typeflag hdr = TypeXGlobalHeader then (None, w)
          else (Some (Errorf (Name hdr @ '': unknown type flag: '' @ [Typeflag hdr])), w)))"

text \<open>\<open>Tar.untarNext\<close>, tar.go lines 172 to 182.\<close>

definition untarNext :: "Tar \<Rightarrow> string \<Rightarrow> world \<Rightarrow> error option \<times> Tar \<times> world" where
  "untarNext t to w =
     (case Read t of
        (Inl err, t1) \<Rightarrow> (Some err, t1, w)
      | (Inr f, t1) \<Rightarrow>
          (case File_Header f of
             None \<Rightarrow> (Some (Errorf ''expected header to be *tar.Header''), t1, w)
           | Some header \<Rightarrow>
               (case untarFile t1 f (Join [to, Name header]) w of (e, w1) \<Rightarrow> (e, t1, w1))))"

text \<open>\<open>Tar.addTopLevelFolder\<close>, tar.go lines 144 to 170; first its loop over the listing.\<close>

function scan_files :: "tar_Reader \<Rightarrow> string list \<Rightarrow> error + string list" where
  "scan_files r files =
     (case tar_Next r of
        (Inl err, r1) \<Rightarrow>
          if err = EOF then Inr files
          else Inl (Wrapf ''scanning tarball's file listing: '' err)
      | (Inr (hdr, d), r1) \<Rightarrow> scan_files r1 (files @ [Name hdr]))"
  by pat_completeness auto
termination
proof (relation "measure (\<lambda>(r, files). length (r_pending r))")
  show "wf (measure (\<lambda>(r, files). length (r_pending r)))" by simp
next
  fix r :: tar_Reader and files :: "string list" and x r1 y hdr d
  assume "(x, r1) = tar_Next r" and "x = Inr y" and "(hdr, d) = y"
  then obtain h d0 rest where "dropWhile is_meta (r_pending r) = Entry h d0 # rest"
    and "r1 = r\<lparr> r_pending := rest \<rparr>"
    by (auto simp: tar_Next_def split: option.splits list.splits tar_rec.splits)
  moreover have "length (dropWhile is_meta (r_pending r)) \<le> length (r_pending r)"
    by (rule length_dropWhile_le)
  ultimately show "((r1, files @ [Name hdr]), (r, files)) \<in> measure (\<lambda>(r, files). length (r_pending r))"
    by simp
qed

definition addTopLevelFolder :: "Tar \<Rightarrow> string \<Rightarrow> string \<Rightarrow> world \<Rightarrow> error + string" where
  "addTopLevelFolder t sourceArchive destination w =
     (case os_Open w sourceArchive of
        Inl e \<Rightarrow> Inl (Wrapf ''opening source archive: '' e)
      | Inr file \<Rightarrow>
          (case scan_files (tar_NewReader file) [] of
             Inl e \<Rightarrow> Inl e
           | Inr files \<Rightarrow>
               if multipleTopLevels files
               then Inr (Join [destination, folderNameFromFileName sourceArchive])
               else Inr destination))"

text \<open>
  \<open>Tar.Unarchive\<close>, tar.go lines 92 to 138; first its loop.  A loop that does not end has
  no result.  The result holds the error, the handle, the host, and the records that the
  deferred \<open>Close\<close> emits to the sink of a writer the handle was bound to.
\<close>

partial_function (option) untar_loop :: "Tar \<Rightarrow> string \<Rightarrow> world \<Rightarrow> (error option \<times> Tar \<times> world) option" where
  "untar_loop t destination w =
     (case untarNext t destination w of
        (None, t1, w1) \<Rightarrow> untar_loop t1 destination w1
      | (Some err, t1, w1) \<Rightarrow>
          if err = EOF then Some (None, t1, w1)
          else if ContinueOnError t1 then
            untar_loop t1 destination
              (log_Printf w1 (Wrapf ''[ERROR] Reading file in tar archive: '' err))
          else Some (Some (Wrapf ''reading file in tar archive: '' err), t1, w1))"

definition Unarchive :: "Tar \<Rightarrow> string \<Rightarrow> string \<Rightarrow> world \<Rightarrow> (error option \<times> Tar \<times> world \<times> tar_rec list) option" where
  "Unarchive t source destination w =
     (case (if \<not> fileExists w destination \<and> MkdirAll t then mkdir w destination else (None, w)) of
        (Some e, w1) \<Rightarrow> Some (Some (Wrapf ''preparing destination: '' e), t, w1, [])
      | (None, w1) \<Rightarrow>
     (case (if ImplicitTopLevelFolder t then addTopLevelFolder t source destination w1
            else Inr destination) of
        Inl e \<Rightarrow> Some (Some (Wrapf ''scanning source archive: '' e), t, w1, [])
      | Inr destination1 \<Rightarrow>
     (case os_Open w1 source of
        Inl e \<Rightarrow> Some (Some (Wrapf ''opening source archive: '' e), t, w1, [])
      | Inr file \<Rightarrow>
     (case Open t file of
        (Some e, t1) \<Rightarrow> Some (Some (Wrapf ''opening tar archive for reading: '' e), t1, w1, [])
      | (None, t1) \<Rightarrow>
     (case untar_loop t1 destination1 w1 of
        None \<Rightarrow> None
      | Some (err, t2, w2) \<Rightarrow>
          (case Close t2 of (e, t3, out) \<Rightarrow> Some (err, t3, w2, out)))))))"

text \<open>
  \<open>Tar.Walk\<close>, tar.go lines 370 to 409; first its loop.  The visitor is a closure: it
  takes and returns the variables it captures, and the host.
\<close>

partial_function (option) walk_loop :: "Tar \<Rightarrow> (File \<Rightarrow> 'c \<Rightarrow> world \<Rightarrow> error option \<times> 'c \<times> world) \<Rightarrow>
    tar_Reader \<Rightarrow> 'c \<Rightarrow> world \<Rightarrow> (error option \<times> 'c \<times> world) option" where
  "walk_loop t walkFn r c w =
     (case tar_Next r of
        (Inl err, r1) \<Rightarrow>
          if err = EOF then Some (None, c, w)
          else if ContinueOnError t then
            walk_loop t walkFn r1 c (log_Printf w (Wrapf ''[ERROR] Opening next file: '' err))
          else Some (Some (Wrapf ''opening next file: '' err), c, w)
      | (Inr (hdr, d), r1) \<Rightarrow>
          (case walkFn \<lparr> File_FileInfo = Some (header_FileInfo hdr), File_Header = Some hdr,
                         File_ReadCloser = Some d \<rparr> c w of
             (None, c1, w1) \<Rightarrow> walk_loop t walkFn r1 c1 w1
           | (Some err, c1, w1) \<Rightarrow>
               if err = ErrStopWalk then Some (None, c1, w1)
               else if ContinueOnError t then
                 walk_loop t walkFn r1 c1
                   (log_Printf w1 (Wrapf (''[ERROR] Walking '' @ Name hdr @ '': '') err))
               else Some (Some (Wrapf (''walking '' @ Name hdr @ '': '') err), c1, w1)))"

definition Walk :: "Tar \<Rightarrow> string \<Rightarrow> (File \<Rightarrow> 'c \<Rightarrow> world \<Rightarrow> error option \<times> 'c \<times> world) \<Rightarrow>
    'c \<Rightarrow> world \<Rightarrow> (error option \<times> 'c \<times> world) option" where
  "Walk t archive walkFn c w =
     (case os_Open w archive of
        Inl e \<Rightarrow> Some (Some (Wrapf ''opening archive file: '' e), c, w)
      | Inr file \<Rightarrow> walk_loop t walkFn (tar_NewReader file) c w)"

text \<open>
  \<open>Tar.Extract\<close>, tar.go lines 414 to 463; first the visitor it passes to \<open>Walk\<close>, whose
  captured variable is \<open>targetDirPath\<close>.
\<close>

definition extract_fn :: "Tar \<Rightarrow> string \<Rightarrow> string \<Rightarrow> File \<Rightarrow> string \<Rightarrow> world \<Rightarrow> error option \<times> string \<times> world" where
  "extract_fn t target destination f targetDirPath w =
     (case File_Header f of
        None \<Rightarrow> (Some (Errorf ''expected header to be *tar.Header''), targetDirPath, w)
      | Some th \<Rightarrow>
     (case File_FileInfo f of
        None \<Rightarrow> (Some Panic, targetDirPath, w)
      | Some fi \<Rightarrow>
          let name = Clean (Name th);
              targetDirPath1 = (if FileInfo_IsDir fi \<and> target = name then Dir name else targetDirPath)
          in if within target (Name th) then
               (case Rel targetDirPath1 (Name th) of
                  Inl e \<Rightarrow> (Some (Wrapf ''relativizing paths: '' e), targetDirPath1, w)
                | Inr endp \<Rightarrow>
                    (case untarFile t f (Join [destination, endp]) w of
                       (Some e, w1) \<Rightarrow>
                         (Some (Wrapf (''extracting file '' @ Name th @ '': '') e), targetDirPath1, w1)
                     | (None, w1) \<Rightarrow>
                         if targetDirPath1 = [] then (Some ErrStopWalk, targetDirPath1, w1)
                         else (None, targetDirPath1, w1)))
             else if targetDirPath1 \<noteq> [] then (Some ErrStopWalk, targetDirPath1, w)
             else (None, targetDirPath1, w)))"

definition Extract :: "Tar \<Rightarrow> string \<Rightarrow> string \<Rightarrow> string \<Rightarrow> world \<Rightarrow> (error option \<times> world) option" where
  "Extract t source target destination w =
     (case Walk t source (extract_fn t (Clean target) destination) [] w of
        None \<Rightarrow> None
      | Some (e, c, w1) \<Rightarrow> Some (e, w1))"

section \<open>Packing\<close>

text \<open>
  \<open>Tar.writeWalk\<close>, tar.go lines 211 to 273; first the visitor it passes to
  \<open>filepath.Walk\<close>, which threads the handle, the host (for the log) and the records
  emitted so far, and inside it \<open>handleErr\<close>.
\<close>

type_synonym pack_state = "Tar \<times> world \<times> tar_rec list"

definition handleErr :: "string \<Rightarrow> error \<Rightarrow> pack_state \<Rightarrow> error option \<times> pack_state" where
  "handleErr fpath err s =
     (case s of (t, w, recs) \<Rightarrow>
        if ContinueOnError t
        then (None, t, log_Printf w (Wrapf (''[ERROR] Walking '' @ fpath @ '': '') err), recs)
        else (Some err, s))"

definition writeWalk_fn :: "string \<Rightarrow> string \<Rightarrow> string \<Rightarrow> FileInfo option \<Rightarrow> error option \<Rightarrow>
    pack_state \<Rightarrow> error option \<times> pack_state" where
  "writeWalk_fn source baseDir fpath info err s =
     (case err of
        Some e \<Rightarrow> handleErr fpath (Wrapf (''traversing '' @ fpath @ '': '') e) s
      | None \<Rightarrow>
     (case info of
        None \<Rightarrow> handleErr fpath (Errorf ''no file info'') s
      | Some fi \<Rightarrow>
     (case (if source \<noteq> fpath then Rel source fpath else Inr source) of
        Inl e \<Rightarrow> handleErr fpath e s
      | Inr name \<Rightarrow>
          let nameInArchive = Join [baseDir, name]
          in (case s of (t, w, recs) \<Rightarrow>
               (case os_Open w fpath of
                  Inl e \<Rightarrow> handleErr fpath (Wrapf (fpath @ '': opening: '') e) s
                | Inr file \<Rightarrow>
                    (case Write t \<lparr> File_FileInfo = Some (fi\<lparr> CustomName := nameInArchive \<rparr>),
                                    File_Header = None, File_ReadCloser = Some file \<rparr> of
                       (Some e, t1, out) \<Rightarrow>
                         handleErr fpath (Wrapf (fpath @ '': writing: '') e) (t1, w, recs @ out)
                     | (None, t1, out) \<Rightarrow> (None, t1, w, recs @ out)))))))"

definition writeWalk :: "string \<Rightarrow> string \<Rightarrow> pack_state \<Rightarrow> (error option \<times> pack_state) option" where
  "writeWalk source topLevelFolder s =
     (case s of (t, w, recs) \<Rightarrow>
        let sourceAbs = Abs (cwd w) source
        in case os_Stat w sourceAbs of
             Inl e \<Rightarrow> Some (Some (Wrapf (source @ '': stat: '') e), s)
           | Inr sourceInfo \<Rightarrow>
               let baseDir0 = (if topLevelFolder \<noteq> [] then topLevelFolder else []);
                   baseDir = (if FileInfo_IsDir sourceInfo then Join [baseDir0, fi_Name sourceInfo]
                              else baseDir0)
               in filepath_Walk w source (writeWalk_fn source baseDir) s)"

text \<open>The loop of \<open>Tar.Archive\<close> over the sources, tar.go lines 80 to 85.\<close>

fun archive_sources :: "string list \<Rightarrow> string \<Rightarrow> pack_state \<Rightarrow> (error option \<times> pack_state) option" where
  "archive_sources [] topLevelFolder s = Some (None, s)"
| "archive_sources (source # sources) topLevelFolder s =
     (case writeWalk source topLevelFolder s of
        None \<Rightarrow> None
      | Some (Some err, s1) \<Rightarrow> Some (Some (Wrapf (''walking '' @ source @ '': '') err), s1)
      | Some (None, s1) \<Rightarrow> archive_sources sources topLevelFolder s1)"

text \<open>
  \<open>Tar.Archive\<close>, tar.go lines 55 to 88.  The destination file receives the records the
  writer emits, the deferred \<open>Close\<close> included.  The sources are read as they are when the
  destination has been created: a destination that lies below a source directory is read
  as the empty file it is then, not as the archive that grows during the walk.
\<close>

definition Archive :: "Tar \<Rightarrow> string list \<Rightarrow> string \<Rightarrow> world \<Rightarrow> (error option \<times> Tar \<times> world) option" where
  "Archive t sources destination w =
     (if \<not> HasSuffix destination ''.tar''
      then Some (Some (Errorf ''output filename must have .tar extension''), t, w)
      else if \<not> OverwriteExisting t \<and> fileExists w destination
      then Some (Some (Errorf (''file already exists: '' @ destination)), t, w)
      else
     (case os_Create w destination of
        Inl e \<Rightarrow> Some (Some (Wrapf (''creating '' @ destination @ '': '') e), t, w)
      | Inr w1 \<Rightarrow>
     (case Create t (OsFile destination) of
        (Some e, t1) \<Rightarrow> Some (Some (Wrapf ''creating tar: '' e), t1, w1)
      | (None, t1) \<Rightarrow>
          let topLevelFolder =
                (if ImplicitTopLevelFolder t1 \<and> multipleTopLevels sources
                 then folderNameFromFileName destination else [])
          in (case archive_sources sources topLevelFolder (t1, w1, []) of
                None \<Rightarrow> None
              | Some (err, t2, w2, recs) \<Rightarrow>
                  (case Close t2 of
                     (e, t3, out) \<Rightarrow>
                       Some (err, t3,
                         (case fs_lookup w2 destination of
                            None \<Rightarrow> w2
                          | Some n \<Rightarrow> fs_put w2 destination (n\<lparr> n_data := Tarball (recs @ out) \<rparr>))))))))"

section \<open>The compressed variant: whole-archive operations\<close>

text \<open>\<open>TarGz.Archive\<close>, targz.go lines 25 to 32.\<close>

definition TarGz_Archive :: "TarGz \<Rightarrow> string list \<Rightarrow> string \<Rightarrow> world \<Rightarrow> (error option \<times> TarGz \<times> world) option" where
  "TarGz_Archive tgz sources destination w =
     (if \<not> HasSuffix destination ''.tar.gz'' \<and> \<not> HasSuffix destination ''.tgz''
      then Some (Some (Errorf ''output filename must have .tar.gz or .tgz extension''), tgz, w)
      else let tgz1 = wrapWriter tgz
           in case Archive (tgz_Tar tgz1) sources destination w of
                None \<Rightarrow> None
              | Some (e, t1, w1) \<Rightarrow> Some (e, tgz1\<lparr> tgz_Tar := t1 \<rparr>, w1))"

text \<open>\<open>TarGz.Unarchive\<close>, \<open>TarGz.Walk\<close> and \<open>TarGz.Extract\<close>, targz.go lines 37 to 46 and 65 to 68.\<close>

definition TarGz_Unarchive :: "TarGz \<Rightarrow> string \<Rightarrow> string \<Rightarrow> world \<Rightarrow>
    (error option \<times> TarGz \<times> world \<times> tar_rec list) option" where
  "TarGz_Unarchive tgz source destination w =
     (let tgz1 = wrapReader tgz
      in case Unarchive (tgz_Tar tgz1) source destination w of
           None \<Rightarrow> None
         | Some (e, t1, w1, out) \<Rightarrow> Some (e, tgz1\<lparr> tgz_Tar := t1 \<rparr>, w1, out))"

definition TarGz_Walk :: "TarGz \<Rightarrow> string \<Rightarrow> (File \<Rightarrow> 'c \<Rightarrow> world \<Rightarrow> error option \<times> 'c \<times> world) \<Rightarrow>
    'c \<Rightarrow> world \<Rightarrow> (error option \<times> 'c \<times> world) option" where
  "TarGz_Walk tgz archive walkFn c w = Walk (tgz_Tar (wrapReader tgz)) archive walkFn c w"

definition TarGz_Extract :: "TarGz \<Rightarrow> string \<Rightarrow> string \<Rightarrow> string \<Rightarrow> world \<Rightarrow> (error option \<times> world) option" where
  "TarGz_Extract tgz source target destination w =
     Extract (tgz_Tar (wrapReader tgz)) source target destination w"

declare untar_loop.simps [code] walk_loop.simps [code]

section \<open>Sequences of handle operations\<close>

text \<open>
  A call of \<open>Create\<close>, \<open>Open\<close> or \<open>Close\<close> on a handle, and the handle that a sequence of
  such calls leaves; \<open>since_close\<close> is the part of a sequence after its last \<open>Close\<close>.
\<close>

datatype handle_op = OpCreate io_writer | OpOpen io_reader | OpClose

fun apply_op :: "Tar \<Rightarrow> handle_op \<Rightarrow> Tar" where
  "apply_op t (OpCreate out) = snd (Create t out)"
| "apply_op t (OpOpen inp) = snd (Open t inp)"
| "apply_op t OpClose = fst (snd (Close t))"

definition run_ops :: "Tar \<Rightarrow> handle_op list \<Rightarrow> Tar" where
  "run_ops t ops = foldl apply_op t ops"

fun is_create :: "handle_op \<Rightarrow> bool" where
  "is_create (OpCreate out) = True"
| "is_create op = False"

fun is_open :: "handle_op \<Rightarrow> bool" where
  "is_open (OpOpen inp) = True"
| "is_open op = False"

definition since_close :: "handle_op list \<Rightarrow> handle_op list" where
  "since_close ops = rev (takeWhile (\<lambda>op. op \<noteq> OpClose) (rev ops))"

section \<open>Example inputs\<close>

definition ex_dir_node :: node where
  "ex_dir_node = \<lparr> n_mode = ModeDir OR 0x1ED, n_data = Bytes [], n_link = [] \<rparr>"

definition ex_file_node :: "fdata \<Rightarrow> node" where
  "ex_file_node d = \<lparr> n_mode = 0x1A4, n_data = d, n_link = [] \<rparr>"

text \<open>A host with the directory \<open>/home/docs\<close>, which holds the files \<open>docs\<close> and
  \<open>readme\<close>; the working directory is \<open>/home\<close>.\<close>

definition ex_host :: world where
  "ex_host = \<lparr> cwd = ''/home'',
     fs = [(''/home'', ex_dir_node), (''/home/docs'', ex_dir_node),
           (''/home/docs/docs'', ex_file_node (Bytes [1, 2, 3])),
           (''/home/docs/readme'', ex_file_node (Bytes [4]))],
     logs = [] \<rparr>"

text \<open>The archive that packing \<open>docs\<close> on that host produces, and the host with that
  archive at \<open>/home/out.tar\<close>.\<close>

definition ex_packed_recs :: "tar_rec list" where
  "ex_packed_recs =
     [Entry \<lparr> Name = ''docs/docs/'', Typeflag = TypeDir, Size = 0, Mode = 493, Linkname = [],
              ModTime = 0 \<rparr> (Bytes []),
      Entry \<lparr> Name = ''docs/docs'', Typeflag = TypeReg, Size = 3, Mode = 420, Linkname = [],
              ModTime = 0 \<rparr> (Bytes [1, 2, 3]),
      Entry \<lparr> Name = ''docs/readme'', Typeflag = TypeReg, Size = 1, Mode = 420, Linkname = [],
              ModTime = 0 \<rparr> (Bytes [4]),
      Trailer]"

definition ex_packed :: world where
  "ex_packed = ex_host\<lparr> fs := (''/home/out.tar'', ex_file_node (Tarball ex_packed_recs)) # fs ex_host \<rparr>"

text \<open>A host whose only file is the archive \<open>/home/in.tar\<close> with the given content.\<close>

definition ex_data_host :: "fdata \<Rightarrow> world" where
  "ex_data_host d = \<lparr> cwd = ''/home'',
     fs = [(''/home'', ex_dir_node), (''/home/in.tar'', ex_file_node d)],
     logs = [] \<rparr>"

definition ex_archive_host :: "tar_rec list \<Rightarrow> world" where
  "ex_archive_host recs = ex_data_host (Tarball recs)"

definition ex_header :: "string \<Rightarrow> char \<Rightarrow> header" where
  "ex_header n flag = \<lparr> Name = n, Typeflag = flag, Size = 0, Mode = 420, Linkname = [], ModTime = 0 \<rparr>"



text \<open>An archive with the directory \<open>a/b/\<close> and the files \<open>a/b/c.txt\<close> and \<open>a/b/d.txt\<close>,
  and the host after \<open>a/b/c.txt\<close> has been extracted into \<open>dest\<close>.\<close>

definition ex_nested_recs :: "tar_rec list" where
  "ex_nested_recs =
     [Entry (ex_header ''a/b/'' TypeDir) (Bytes []),
      Entry ((ex_header ''a/b/c.txt'' TypeReg)\<lparr> Size := 2 \<rparr>) (Bytes [104, 105]),
      Entry (ex_header ''a/b/d.txt'' TypeReg) (Bytes []),
      Trailer]"

definition ex_nested_visit :: "File \<Rightarrow> string list \<Rightarrow> world \<Rightarrow> error option \<times> string list \<times> world" where
  "ex_nested_visit f names w =
     (None, names @ [case File_Header f of None \<Rightarrow> [] | Some h \<Rightarrow> Name h], w)"

definition ex_nested_extracted :: world where
  "ex_nested_extracted = \<lparr> cwd = ''/home'',
     fs = [(''/home/dest/a/b/c.txt'', ex_file_node (Bytes [104, 105])),
           (''/home/dest/a/b'', ex_dir_node), (''/home/dest/a'', ex_dir_node),
           (''/home/dest'', ex_dir_node), (''/home'', ex_dir_node),
           (''/home/in.tar'', ex_file_node (Tarball ex_nested_recs))],
     logs = [] \<rparr>"

text \<open>An archive whose first entry has the type flag \<open>Z\<close>, which no format defines.\<close>

definition ex_unknown_recs :: "tar_rec list" where
  "ex_unknown_recs =
     [Entry (ex_header ''a'' (CHR ''Z'')) (Bytes []),
      Entry (ex_header ''b'' TypeReg) (Bytes []),
      Trailer]"

text \<open>An archive with the file \<open>x\<close> and the hard link \<open>y\<close> to it.\<close>

definition ex_link_recs :: "tar_rec list" where
  "ex_link_recs =
     [Entry (ex_header ''x'' TypeReg) (Bytes []),
      Entry ((ex_header ''y'' TypeLink)\<lparr> Linkname := ''x'' \<rparr>) (Bytes []),
      Trailer]"

text \<open>
  The type flags that \<open>untarFile\<close> knows, the recognizer of records that lie outside an
  extraction target, and the recognizer of records that hold an entry.
\<close>

definition known_flags :: "char set" where
  "known_flags = {TypeDir, TypeReg, TypeRegA, TypeChar, TypeBlock, TypeFifo, TypeSymlink,
                  TypeLink, TypeXGlobalHeader}"

fun outside :: "string \<Rightarrow> tar_rec \<Rightarrow> bool" where
  "outside target (Entry h d) = (\<not> within target (Name h))"
| "outside target r = False"

fun is_entry :: "tar_rec \<Rightarrow> bool" where
  "is_entry (Entry h d) = True"
| "is_entry r = False"

text \<open>A handle that is read-open on the archive with the unknown type flag and has the
  continue-on-error policy enabled, and the handle after the first entry has been read.\<close>

definition ex_unknown_handle :: Tar where
  "ex_unknown_handle = DefaultTar\<lparr> ContinueOnError := True,
     tr := Some \<lparr> r_pending = ex_unknown_recs, r_err = None \<rparr> \<rparr>"

definition ex_unknown_handle_next :: Tar where
  "ex_unknown_handle_next = DefaultTar\<lparr> ContinueOnError := True,
     tr := Some \<lparr> r_pending = [Entry (ex_header ''b'' TypeReg) (Bytes []), Trailer], r_err = None \<rparr> \<rparr>"

section \<open>Properties of the handle\<close>

lemma Create_then_Create:
  "tw t = None \<Longrightarrow>
     Create t out = (None, t\<lparr> tw := Some (tar_NewWriter out) \<rparr>) \<and>
     Create (snd (Create t out)) out2
       = (Some (Errorf ''tar archive is already created for writing''), snd (Create t out))"
  by (simp add: Create_def)

lemma TarGz_Create_never:
  assumes ret: "TarGz_Create tgz out = Some y"
  shows False
proof (rule TarGz_Create.raw_induct [where P = "\<lambda>_ _ _. False" and tgz = tgz and out = out and y = y])
  show "TarGz_Create tgz out = Some y" by (rule ret)
next
  fix f :: "TarGz \<Rightarrow> io_writer \<Rightarrow> (error option \<times> TarGz) option" and a b r
  assume ih: "\<And>a b r. f a b = Some r \<Longrightarrow> False"
    and step: "f (wrapWriter a) b = Some r"
  from step show False by (rule ih)
qed

text \<open>
  C6.  The \<open>Create\<close> of the compressed variant calls itself instead of the \<open>Create\<close> of the
  embedded handle: on every handle and every sink the call does not return, so it returns
  neither success nor the "already open" error.  (The plain handle behaves as claimed,
  see \<open>Create_then_Create\<close>.)
\<close>

theorem TarGz_Create_diverges: "TarGz_Create tgz out = None"
  using TarGz_Create_never [of tgz out] by (cases "TarGz_Create tgz out") auto

lemma Close_closed: "tw (fst (snd (Close t))) = None \<and> tr (fst (snd (Close t))) = None"
  by (simp add: Close_def split: option.splits prod.splits)

lemma Close_of_closed: "tw t = None \<Longrightarrow> tr t = None \<Longrightarrow> Close t = (None, t, [])"
  by (simp add: Close_def)

lemma Close_emits: "snd (snd (Close t)) = [] \<or> snd (snd (Close t)) = [Trailer]"
  by (simp add: Close_def tar_Writer_Close_def split: option.splits prod.splits)

text \<open>
  C7.  On every handle, and on every handle of the compressed variant, a \<open>Close\<close> that
  follows a \<open>Close\<close> returns no error, emits nothing and leaves the handle as it is; the two
  calls together emit the end-of-archive marker at most once.
\<close>

theorem Close_idempotent:
  "(case Close t of (e1, t1, out1) \<Rightarrow>
      (case Close t1 of (e2, t2, out2) \<Rightarrow>
         e2 = None \<and> out2 = [] \<and> t2 = t1 \<and> length (filter (\<lambda>r. r = Trailer) (out1 @ out2)) \<le> 1))
   \<and>
   (case TarGz_Close tgz of (e1, tgz1, out1) \<Rightarrow>
      (case TarGz_Close tgz1 of (e2, tgz2, out2) \<Rightarrow>
         e2 = None \<and> out2 = [] \<and> tgz2 = tgz1 \<and> length (filter (\<lambda>r. r = Trailer) (out1 @ out2)) \<le> 1))"
proof -
  obtain e1 t1 out1 where c1: "Close t = (e1, t1, out1)" by (cases "Close t") auto
  obtain g1 u1 gout1 where c2: "Close (tgz_Tar tgz) = (g1, u1, gout1)"
    by (cases "Close (tgz_Tar tgz)") auto
  from c1 Close_closed [of t] Close_emits [of t] Close_of_closed [of t1]
  have a: "Close t1 = (None, t1, [])" "length (filter (\<lambda>r. r = Trailer) out1) \<le> 1"
    by auto
  from c2 Close_closed [of "tgz_Tar tgz"] Close_emits [of "tgz_Tar tgz"] Close_of_closed [of u1]
  have b: "Close u1 = (None, u1, [])" "length (filter (\<lambda>r. r = Trailer) gout1) \<le> 1"
    by auto
  from a b show ?thesis
    by (simp add: c1 c2 TarGz_Close_def)
qed

lemma since_close_snoc:
  "since_close (ops @ [op]) = (if op = OpClose then [] else since_close ops @ [op])"
  by (simp add: since_close_def)

lemma apply_op_tw:
  "tw (apply_op t op) \<noteq> None \<longleftrightarrow> (op \<noteq> OpClose \<and> (tw t \<noteq> None \<or> is_create op))"
  by (cases op) (auto simp: Create_def Open_def Close_def split: option.splits prod.splits)

lemma apply_op_tr:
  "tr (apply_op t op) \<noteq> None \<longleftrightarrow> (op \<noteq> OpClose \<and> (tr t \<noteq> None \<or> is_open op))"
  by (cases op) (auto simp: Create_def Open_def Close_def split: option.splits prod.splits)

lemma run_ops_snoc: "run_ops t (ops @ [op]) = apply_op (run_ops t ops) op"
  by (simp add: run_ops_def)

text \<open>
  C8, as the code has it.  The handle keeps the writer and the reader in two fields that
  \<open>Create\<close>, \<open>Open\<close> and \<open>Close\<close> treat independently: after any sequence of calls on a
  closed handle, the handle is write-open iff \<open>Create\<close> was called since the last \<open>Close\<close>,
  and read-open iff \<open>Open\<close> was called since the last \<open>Close\<close>.  It is bound in both modes
  exactly when both were called since the last \<open>Close\<close>.
\<close>

theorem modes_independent:
  assumes "tw t = None" and "tr t = None"
  shows "(tw (run_ops t ops) \<noteq> None \<longleftrightarrow> list_ex is_create (since_close ops)) \<and>
         (tr (run_ops t ops) \<noteq> None \<longleftrightarrow> list_ex is_open (since_close ops))"
proof (induction ops rule: rev_induct)
  case Nil
  from assms show ?case by (simp add: run_ops_def since_close_def)
next
  case (snoc op ops)
  show ?case
    unfolding run_ops_snoc apply_op_tw apply_op_tr since_close_snoc
    using snoc.IH by (cases op) auto
qed

theorem modes_independent_witness:
  "tw DefaultTar = None \<and> tr DefaultTar = None \<and>
   tw (run_ops DefaultTar
         [OpCreate (OsFile ''a.tar''), OpClose, OpOpen (Bytes []), OpCreate (OsFile ''b.tar'')]) \<noteq> None \<and>
   tr (run_ops DefaultTar
         [OpCreate (OsFile ''a.tar''), OpClose, OpOpen (Bytes []), OpCreate (OsFile ''b.tar'')]) \<noteq> None"
  using modes_independent [of DefaultTar
      "[OpCreate (OsFile ''a.tar''), OpClose, OpOpen (Bytes []), OpCreate (OsFile ''b.tar'')]"]
  by (simp add: DefaultTar_def since_close_def)

text \<open>C8 as stated fails: \<open>Create\<close> and then \<open>Open\<close> on the default handle leave it bound in
  both modes.\<close>

theorem both_modes_counterexample:
  "tw (run_ops DefaultTar [OpCreate (OsFile ''a.tar''), OpOpen (Bytes [])]) \<noteq> None \<and>
   tr (run_ops DefaultTar [OpCreate (OsFile ''a.tar''), OpOpen (Bytes [])]) \<noteq> None"
  by (simp add: run_ops_def DefaultTar_def Create_def Open_def)

section \<open>Properties of the compressed variant\<close>

lemma HasSuffix_last: "HasSuffix s suf \<Longrightarrow> suf \<noteq> [] \<Longrightarrow> s \<noteq> [] \<and> last s = last suf"
  unfolding HasSuffix_def
  by (metis append_take_drop_id last_appendR list.size(3) le_zero_eq length_0_conv)

lemma canonical_ext_not_tar:
  assumes "HasSuffix destination ''.tar.gz'' \<or> HasSuffix destination ''.tgz''"
  shows "\<not> HasSuffix destination ''.tar''"
proof
  assume "HasSuffix destination ''.tar''"
  then have "last destination = CHR ''r''"
    using HasSuffix_last [of destination "''.tar''"] by simp
  moreover from assms have "last destination = CHR ''z''"
    using HasSuffix_last [of destination "''.tar.gz''"] HasSuffix_last [of destination "''.tgz''"]
    by auto
  ultimately show False by simp
qed

text \<open>
  C1.  \<open>TarGz.Archive\<close> hands the destination on to \<open>Tar.Archive\<close>, which demands the
  extension \<open>.tar\<close>: for every destination that ends in \<open>.tar.gz\<close> or \<open>.tgz\<close> the compressed
  variant returns the naming error of the plain format, and leaves the host untouched.
\<close>

theorem TarGz_Archive_rejects_canonical_names:
  assumes "HasSuffix destination ''.tar.gz'' \<or> HasSuffix destination ''.tgz''"
  shows "TarGz_Archive tgz sources destination w =
           Some (Some (Errorf ''output filename must have .tar extension''), wrapWriter tgz, w)"
  using assms canonical_ext_not_tar [OF assms]
  by (auto simp: TarGz_Archive_def Archive_def wrapWriter_def)

theorem TarGz_Archive_rejects_canonical_names_witness:
  "(HasSuffix ''backup.tar.gz'' ''.tar.gz'' \<or> HasSuffix ''backup.tar.gz'' ''.tgz'') \<and>
   TarGz_Archive DefaultTarGz [''docs''] ''backup.tar.gz'' ex_host =
     Some (Some (Errorf ''output filename must have .tar extension''), wrapWriter DefaultTarGz, ex_host)"
proof -
  have h: "HasSuffix ''backup.tar.gz'' ''.tar.gz'' \<or> HasSuffix ''backup.tar.gz'' ''.tgz''"
    by (simp add: HasSuffix_def)
  from h TarGz_Archive_rejects_canonical_names [OF h, of DefaultTarGz "[''docs'']" ex_host]
  show ?thesis by simp
qed

lemma TarGz_Open_raw:
  "tr (tgz_Tar tgz) = None \<Longrightarrow>
     TarGz_Open tgz inp =
       (None, (wrapReader tgz)\<lparr> tgz_Tar := (tgz_Tar (wrapReader tgz))\<lparr> tr := Some (tar_NewReader inp) \<rparr> \<rparr>)"
  by (simp add: TarGz_Open_def Open_def wrapReader_def)

lemma gzip_source_has_no_header:
  "fst (tar_Next (tar_NewReader (Gzipped n d)))
     = Inl (if n = 0 then EOF else if n < 512 then ErrUnexpectedEOF else ErrHeader)"
  by (simp add: tar_Next_def tar_NewReader_def no_header_def)

lemma TarGz_reads_gzip_example:
  "fst (TarGz_Open DefaultTarGz (Gzipped 128 (Tarball ex_nested_recs))) = None \<and>
   fst (TarGz_Read (snd (TarGz_Open DefaultTarGz (Gzipped 128 (Tarball ex_nested_recs)))))
     = Inl ErrUnexpectedEOF \<and>
   map_option fst (TarGz_Unarchive DefaultTarGz ''in.tar'' ''dest''
       (ex_data_host (Gzipped 128 (Tarball ex_nested_recs))))
     = Some (Some (Wrapf ''reading file in tar archive: '' ErrUnexpectedEOF)) \<and>
   map_option fst (TarGz_Walk DefaultTarGz ''in.tar'' ex_nested_visit []
       (ex_data_host (Gzipped 128 (Tarball ex_nested_recs))))
     = Some (Some (Wrapf ''opening next file: '' ErrUnexpectedEOF)) \<and>
   map_option fst (TarGz_Extract DefaultTarGz ''in.tar'' ''a/b/c.txt'' ''dest''
       (ex_data_host (Gzipped 128 (Tarball ex_nested_recs))))
     = Some (Some (Wrapf ''opening next file: '' ErrUnexpectedEOF))"
  by code_simp

lemma TarGz_reads_long_gzip_example:
  "fst (TarGz_Open DefaultTarGz (Gzipped 4096 (Tarball ex_nested_recs))) = None \<and>
   fst (TarGz_Read (snd (TarGz_Open DefaultTarGz (Gzipped 4096 (Tarball ex_nested_recs)))))
     = Inl ErrHeader \<and>
   map_option fst (TarGz_Unarchive DefaultTarGz ''in.tar'' ''dest''
       (ex_data_host (Gzipped 4096 (Tarball ex_nested_recs))))
     = Some (Some (Wrapf ''reading file in tar archive: '' ErrHeader)) \<and>
   map_option fst (TarGz_Walk DefaultTarGz ''in.tar'' ex_nested_visit []
       (ex_data_host (Gzipped 4096 (Tarball ex_nested_recs))))
     = Some (Some (Wrapf ''opening next file: '' ErrHeader)) \<and>
   map_option fst (TarGz_Extract DefaultTarGz ''in.tar'' ''a/b/c.txt'' ''dest''
       (ex_data_host (Gzipped 4096 (Tarball ex_nested_recs))))
     = Some (Some (Wrapf ''opening next file: '' ErrHeader))"
  by code_simp

lemma plain_reads_decoded_example:
  "gzip_NewReader (Gzipped 128 (Tarball ex_nested_recs)) = Inr (Tarball ex_nested_recs) \<and>
   gzip_NewReader (Gzipped 4096 (Tarball ex_nested_recs)) = Inr (Tarball ex_nested_recs) \<and>
   map_option (\<lambda>r. (fst r, fst (snd r))) (Walk DefaultTar ''in.tar'' ex_nested_visit []
       (ex_data_host (Tarball ex_nested_recs)))
     = Some (None, [''a/b/'', ''a/b/c.txt'', ''a/b/d.txt''])"
  by code_simp

text \<open>
  C2.  \<open>wrapReader\<close> installs the gzip decoder in \<open>readerWrapFn\<close>, but \<open>Tar.Open\<close>,
  \<open>Tar.Unarchive\<close> and \<open>Tar.Walk\<close> bind the TAR decoder to the source as it is.  On a
  gzip-compressed archive of three entries, \<open>Open\<close> of the compressed variant succeeds
  and the first \<open>Read\<close> fails, and \<open>Unarchive\<close>, \<open>Walk\<close> and \<open>Extract\<close> of the compressed
  variant fail with the same error at the first entry, although the decoder that was
  installed yields a TAR stream whose three entries a walk visits.  The error is the
  unexpected end of the stream when the compressed archive is shorter than one block of
  512 bytes (here 128 bytes, for 3072 bytes of TAR data), and the header error when it
  is longer (here 4096 bytes).
\<close>

theorem TarGz_reads_skip_gzip_decoder:
  "readerWrapFn (tgz_Tar (wrapReader DefaultTarGz)) = Some gzip_NewReader \<and>
   gzip_NewReader (Gzipped 128 (Tarball ex_nested_recs)) = Inr (Tarball ex_nested_recs) \<and>
   gzip_NewReader (Gzipped 4096 (Tarball ex_nested_recs)) = Inr (Tarball ex_nested_recs) \<and>
   map_option (\<lambda>r. (fst r, fst (snd r))) (Walk DefaultTar ''in.tar'' ex_nested_visit []
       (ex_data_host (Tarball ex_nested_recs)))
     = Some (None, [''a/b/'', ''a/b/c.txt'', ''a/b/d.txt'']) \<and>
   fst (TarGz_Open DefaultTarGz (Gzipped 128 (Tarball ex_nested_recs))) = None \<and>
   tr (tgz_Tar (snd (TarGz_Open DefaultTarGz (Gzipped 128 (Tarball ex_nested_recs)))))
     = Some (tar_NewReader (Gzipped 128 (Tarball ex_nested_recs))) \<and>
   fst (TarGz_Read (snd (TarGz_Open DefaultTarGz (Gzipped 128 (Tarball ex_nested_recs)))))
     = Inl ErrUnexpectedEOF \<and>
   map_option fst (TarGz_Unarchive DefaultTarGz ''in.tar'' ''dest''
       (ex_data_host (Gzipped 128 (Tarball ex_nested_recs))))
     = Some (Some (Wrapf ''reading file in tar archive: '' ErrUnexpectedEOF)) \<and>
   map_option fst (TarGz_Walk DefaultTarGz ''in.tar'' ex_nested_visit []
       (ex_data_host (Gzipped 128 (Tarball ex_nested_recs))))
     = Some (Some (Wrapf ''opening next file: '' ErrUnexpectedEOF)) \<and>
   map_option fst (TarGz_Extract DefaultTarGz ''in.tar'' ''a/b/c.txt'' ''dest''
       (ex_data_host (Gzipped 128 (Tarball ex_nested_recs))))
     = Some (Some (Wrapf ''opening next file: '' ErrUnexpectedEOF)) \<and>
   fst (TarGz_Open DefaultTarGz (Gzipped 4096 (Tarball ex_nested_recs))) = None \<and>
   tr (tgz_Tar (snd (TarGz_Open DefaultTarGz (Gzipped 4096 (Tarball ex_nested_recs)))))
     = Some (tar_NewReader (Gzipped 4096 (Tarball ex_nested_recs))) \<and>
   fst (TarGz_Read (snd (TarGz_Open DefaultTarGz (Gzipped 4096 (Tarball ex_nested_recs)))))
     = Inl ErrHeader \<and>
   map_option fst (TarGz_Unarchive DefaultTarGz ''in.tar'' ''dest''
       (ex_data_host (Gzipped 4096 (Tarball ex_nested_recs))))
     = Some (Some (Wrapf ''reading file in tar archive: '' ErrHeader)) \<and>
   map_option fst (TarGz_Walk DefaultTarGz ''in.tar'' ex_nested_visit []
       (ex_data_host (Gzipped 4096 (Tarball ex_nested_recs))))
     = Some (Some (Wrapf ''opening next file: '' ErrHeader)) \<and>
   map_option fst (TarGz_Extract DefaultTarGz ''in.tar'' ''a/b/c.txt'' ''dest''
       (ex_data_host (Gzipped 4096 (Tarball ex_nested_recs))))
     = Some (Some (Wrapf ''opening next file: '' ErrHeader))"
proof -
  have a: "readerWrapFn (tgz_Tar (wrapReader DefaultTarGz)) = Some gzip_NewReader"
    by (simp add: wrapReader_def)
  have b: "tr (tgz_Tar DefaultTarGz) = None"
    by (simp add: DefaultTarGz_def DefaultTar_def)
  have c: "tr (tgz_Tar (snd (TarGz_Open DefaultTarGz (Gzipped n (Tarball ex_nested_recs)))))
     = Some (tar_NewReader (Gzipped n (Tarball ex_nested_recs)))" for n
    by (simp add: TarGz_Open_raw [OF b])
  from a c [of 128] c [of 4096] TarGz_reads_gzip_example TarGz_reads_long_gzip_example
    plain_reads_decoded_example
  show ?thesis by simp
qed

section \<open>Properties of Write\<close>














section \<open>Properties of unpacking\<close>

lemma handed_Name: "Name (fst (handed h d)) = Name h"
  by (simp add: handed_def promote_def)

lemma handed_plain:
  "Typeflag h \<noteq> TypeRegA \<Longrightarrow> Typeflag h \<noteq> TypeXGlobalHeader \<Longrightarrow> handed h d = (h, d)"
  by (simp add: handed_def promote_def)

lemma tar_Next_entry:
  assumes "r_err r = None" and "dropWhile is_meta (r_pending r) = Entry h d # rest"
  shows "tar_Next r = (Inr (handed h d), r\<lparr> r_pending := rest \<rparr>)"
  using assms by (simp add: tar_Next_def)

lemma tar_Next_skip:
  assumes "r_err r = None" and "r_pending r = x # xs" and "is_meta x"
  shows "tar_Next r = tar_Next (r\<lparr> r_pending := xs \<rparr>)"
proof -
  define ys where "ys = dropWhile is_meta xs"
  have a: "dropWhile is_meta (r_pending r) = ys" using assms by (simp add: ys_def)
  have b: "dropWhile is_meta xs = ys" by (simp add: ys_def)
  show ?thesis
    by (cases ys) (simp_all add: tar_Next_def assms(1) a b split: tar_rec.splits)
qed

lemma Clean_nested: "Clean ''a/b/c.txt'' = ''a/b/c.txt''"
  by code_simp

lemma Rel_nested: "Rel [] ''a/b/c.txt'' = Inr ''a/b/c.txt''"
  by code_simp

lemma within_nested: "within ''a/b/c.txt'' ''a/b/c.txt''"
  by (simp add: within_def Clean_nested)

lemma extract_fn_outside:
  assumes "\<not> within target (Name th)"
  shows "extract_fn t target destination
           \<lparr> File_FileInfo = Some (header_FileInfo th), File_Header = Some th, File_ReadCloser = Some d \<rparr> [] w
         = (None, [], w)"
  using assms by (auto simp: extract_fn_def Let_def within_def)

lemma extract_fn_hit:
  assumes "Name h = ''a/b/c.txt''" and "\<not> Mode_IsDir (header_Mode h)"
    and "untarFile t \<lparr> File_FileInfo = Some (header_FileInfo h), File_Header = Some h, File_ReadCloser = Some d \<rparr>
           (Join [destination, ''a/b/c.txt'']) w = (None, w1)"
  shows "extract_fn t ''a/b/c.txt'' destination
           \<lparr> File_FileInfo = Some (header_FileInfo h), File_Header = Some h, File_ReadCloser = Some d \<rparr> [] w
         = (Some ErrStopWalk, [], w1)"
  using assms
  by (simp add: extract_fn_def Let_def within_nested Rel_nested Clean_nested FileInfo_IsDir_def
        header_FileInfo_def)

lemma walk_loop_same_next:
  assumes "tar_Next r = tar_Next r'"
  shows "walk_loop t walkFn r c w = walk_loop t walkFn r' c w"
  by (subst walk_loop.simps [of t walkFn r], subst walk_loop.simps [of t walkFn r']) (simp add: assms)

lemma walk_loop_to_hit:
  assumes "list_all (outside target) pre"
    and "Typeflag h \<notin> meta_flags" and "handed h d = (h, d)"
    and "extract_fn t target destination
           \<lparr> File_FileInfo = Some (header_FileInfo h), File_Header = Some h, File_ReadCloser = Some d \<rparr> [] w
         = (Some ErrStopWalk, [], w1)"
  shows "walk_loop t (extract_fn t target destination)
           \<lparr> r_pending = pre @ Entry h d # post, r_err = None \<rparr> [] w = Some (None, [], w1)"
  using assms(1)
proof (induction pre)
  case Nil
  have "tar_Next \<lparr> r_pending = Entry h d # post, r_err = None \<rparr>
      = (Inr (h, d), \<lparr> r_pending = post, r_err = None \<rparr>)"
    using assms(2) by (simp add: tar_Next_def assms(3))
  then show ?case
    by (subst walk_loop.simps) (simp add: assms(4))
next
  case (Cons r pre)
  then obtain h' d' where r: "r = Entry h' d'" and out: "\<not> within target (Name h')"
    by (cases r) auto
  from Cons have ih: "walk_loop t (extract_fn t target destination)
      \<lparr> r_pending = pre @ Entry h d # post, r_err = None \<rparr> [] w = Some (None, [], w1)"
    by simp
  show ?case
  proof (cases "is_meta r")
    case True
    have "tar_Next \<lparr> r_pending = (r # pre) @ Entry h d # post, r_err = None \<rparr>
        = tar_Next \<lparr> r_pending = pre @ Entry h d # post, r_err = None \<rparr>"
      using tar_Next_skip [of "\<lparr> r_pending = (r # pre) @ Entry h d # post, r_err = None \<rparr>" r
          "pre @ Entry h d # post"] True by simp
    from walk_loop_same_next [OF this, of t "extract_fn t target destination" "[]" w] ih
    show ?thesis by simp
  next
    case False
    obtain hh dd where hd: "handed h' d' = (hh, dd)" by (cases "handed h' d'") auto
    with False r have "tar_Next \<lparr> r_pending = (r # pre) @ Entry h d # post, r_err = None \<rparr>
        = (Inr (hh, dd), \<lparr> r_pending = pre @ Entry h d # post, r_err = None \<rparr>)"
      by (simp add: tar_Next_def)
    moreover from out handed_Name [of h' d'] hd have "\<not> within target (Name hh)" by simp
    ultimately show ?thesis
      by (subst walk_loop.simps) (simp add: extract_fn_outside ih)
  qed
qed

lemma reg_flag:
  "TypeReg \<notin> meta_flags" "TypeReg \<noteq> TypeRegA" "TypeReg \<noteq> TypeDir" "TypeReg \<noteq> TypeXGlobalHeader"
  by (simp_all add: TypeReg_def TypeRegA_def TypeDir_def meta_flags_def TypeXHeader_def
        TypeGNULongName_def TypeGNULongLink_def TypeXGlobalHeader_def)

text \<open>
  C3.  For a target that is a file, \<open>Extract\<close> keeps the whole archive path of the entry
  below the destination.  Let the archive hold a regular-file entry \<open>a/b/c.txt\<close> that is
  not a directory, after entries that all lie outside the target \<open>a/b/c.txt\<close>, and before
  any records whatever (the sibling \<open>a/b/d.txt\<close>, a trailer, a corrupt block).  If the
  path \<open>destination/a/b/c.txt\<close> may be written, \<open>Extract\<close> with the target \<open>a/b/c.txt\<close>
  returns without error, and the host it leaves is the one that writing this single file
  at \<open>destination/a/b/c.txt\<close> leaves, not at \<open>destination/c.txt\<close>; no record after the
  entry is read.  The visitor sets \<open>targetDirPath\<close> for a directory target only, so for
  a file target the entry's name is made relative to the empty path.
\<close>

theorem Extract_single_file:
  assumes "os_Open w source = Inr (Tarball (pre @ Entry h d # post))"
    and "list_all (outside ''a/b/c.txt'') pre"
    and "Name h = ''a/b/c.txt''" and "Typeflag h = TypeReg" and "\<not> Mode_IsDir (header_Mode h)"
    and "OverwriteExisting t \<or> \<not> fileExists w (Join [destination, ''a/b/c.txt''])"
    and "writeNewFile w (Join [destination, ''a/b/c.txt'']) (Some d) (header_Mode h) = (None, w1)"
  shows "Extract t source ''a/b/c.txt'' destination w = Some (None, w1)"
proof -
  have u: "untarFile t \<lparr> File_FileInfo = Some (header_FileInfo h), File_Header = Some h, File_ReadCloser = Some d \<rparr>
           (Join [destination, ''a/b/c.txt'']) w = (None, w1)"
    using assms(4,6,7)
    by (auto simp: untarFile_def header_FileInfo_def TypeReg_def TypeDir_def)
  note hit = extract_fn_hit [OF assms(3) assms(5) u]
  have m: "Typeflag h \<notin> meta_flags" "handed h d = (h, d)"
    using assms(4) reg_flag by (simp_all add: handed_plain)
  show ?thesis
    by (simp add: Extract_def Walk_def assms(1) tar_NewReader_def Clean_nested
          walk_loop_to_hit [OF assms(2) m hit])
qed

theorem Extract_single_file_witness:
  "os_Open (ex_archive_host ex_nested_recs) ''in.tar''
     = Inr (Tarball ([Entry (ex_header ''a/b/'' TypeDir) (Bytes [])]
         @ Entry ((ex_header ''a/b/c.txt'' TypeReg)\<lparr> Size := 2 \<rparr>) (Bytes [104, 105])
         # [Entry (ex_header ''a/b/d.txt'' TypeReg) (Bytes []), Trailer])) \<and>
   list_all (outside ''a/b/c.txt'') [Entry (ex_header ''a/b/'' TypeDir) (Bytes [])] \<and>
   writeNewFile (ex_archive_host ex_nested_recs) (Join [''dest'', ''a/b/c.txt'']) (Some (Bytes [104, 105]))
       (header_Mode ((ex_header ''a/b/c.txt'' TypeReg)\<lparr> Size := 2 \<rparr>)) = (None, ex_nested_extracted) \<and>
   Extract DefaultTar ''in.tar'' ''a/b/c.txt'' ''dest'' (ex_archive_host ex_nested_recs)
     = Some (None, ex_nested_extracted)"
proof -
  have a: "os_Open (ex_archive_host ex_nested_recs) ''in.tar''
     = Inr (Tarball ([Entry (ex_header ''a/b/'' TypeDir) (Bytes [])]
         @ Entry ((ex_header ''a/b/c.txt'' TypeReg)\<lparr> Size := 2 \<rparr>) (Bytes [104, 105])
         # [Entry (ex_header ''a/b/d.txt'' TypeReg) (Bytes []), Trailer]))"
    by code_simp
  have b: "list_all (outside ''a/b/c.txt'') [Entry (ex_header ''a/b/'' TypeDir) (Bytes [])]"
    by code_simp
  have c: "Name ((ex_header ''a/b/c.txt'' TypeReg)\<lparr> Size := 2 \<rparr>) = ''a/b/c.txt''"
    "Typeflag ((ex_header ''a/b/c.txt'' TypeReg)\<lparr> Size := 2 \<rparr>) = TypeReg"
    by (simp_all add: ex_header_def)
  have d: "\<not> Mode_IsDir (header_Mode ((ex_header ''a/b/c.txt'' TypeReg)\<lparr> Size := 2 \<rparr>))"
    by code_simp
  have e: "OverwriteExisting DefaultTar
      \<or> \<not> fileExists (ex_archive_host ex_nested_recs) (Join [''dest'', ''a/b/c.txt''])"
    by code_simp
  have f: "writeNewFile (ex_archive_host ex_nested_recs) (Join [''dest'', ''a/b/c.txt'']) (Some (Bytes [104, 105]))
       (header_Mode ((ex_header ''a/b/c.txt'' TypeReg)\<lparr> Size := 2 \<rparr>)) = (None, ex_nested_extracted)"
    by code_simp
  from Extract_single_file [OF a b c d e f] a b f show ?thesis by simp
qed

text \<open>
  On the archive with \<open>a/b/\<close>, \<open>a/b/c.txt\<close> and \<open>a/b/d.txt\<close>: the file target is written
  at \<open>dest/a/b/c.txt\<close> and nothing at \<open>dest/c.txt\<close>, whereas the directory target \<open>a/b\<close>
  is rebased below its parent, so that the same entry is written at \<open>dest/b/c.txt\<close>; and
  a file target with an absolute name is not extracted at all.
\<close>

lemma Extract_keeps_entry_path_example:
  "Extract DefaultTar ''in.tar'' ''a/b/c.txt'' ''dest'' (ex_archive_host ex_nested_recs)
     = Some (None, ex_nested_extracted) \<and>
   \<not> fileExists ex_nested_extracted ''dest/c.txt'' \<and>
   fileExists ex_nested_extracted ''dest/a/b/c.txt''"
  by code_simp

lemma Extract_directory_target_rebased:
  "map_option (\<lambda>r. (fst r, map fst (fs (snd r))))
     (Extract DefaultTar ''in.tar'' ''a/b'' ''dest'' (ex_archive_host ex_nested_recs))
   = Some (None, [''/home/dest/b/d.txt'', ''/home/dest/b/c.txt'', ''/home/dest/b'', ''/home/dest'',
                  ''/home'', ''/home/in.tar''])"
  by code_simp

lemma Extract_absolute_file_target_fails:
  "map_option (\<lambda>r. (fst r, map fst (fs (snd r))))
     (Extract DefaultTar ''in.tar'' ''/a/b/c.txt'' ''dest''
        (ex_archive_host [Entry (ex_header ''/a/b/c.txt'' TypeReg) (Bytes []), Trailer]))
   = Some (Some (Wrapf ''walking /a/b/c.txt: '' (Wrapf ''relativizing paths: ''
             (Errorf ''Rel: can't make /a/b/c.txt relative to ''))),
           [''/home'', ''/home/in.tar''])"
  by code_simp

lemma untarFile_unknown_flag:
  assumes "Typeflag h \<notin> known_flags"
  shows "untarFile t \<lparr> File_FileInfo = Some (header_FileInfo h), File_Header = Some h, File_ReadCloser = Some d \<rparr> to w
    = (Some (if \<not> Mode_IsDir (header_Mode h) \<and> \<not> OverwriteExisting t \<and> fileExists w to
             then Errorf (''file already exists: '' @ to)
             else Errorf (Name h @ '': unknown type flag: '' @ [Typeflag h])), w)"
  using assms
  by (simp add: untarFile_def known_flags_def FileInfo_IsDir_def header_FileInfo_def)

lemma unknown_not_legacy: "Typeflag h \<notin> known_flags \<Longrightarrow> handed h d = (h, d)"
  by (simp add: handed_def promote_def known_flags_def)

lemma untarNext_unknown_flag:
  assumes "tr t = Some r" and "r_err r = None"
    and "dropWhile is_meta (r_pending r) = Entry h d # rest"
    and "Typeflag h \<notin> known_flags"
  shows "untarNext t destination w =
      (Some (if \<not> Mode_IsDir (header_Mode h) \<and> \<not> OverwriteExisting t
                  \<and> fileExists w (Join [destination, Name h])
             then Errorf (''file already exists: '' @ Join [destination, Name h])
             else Errorf (Name h @ '': unknown type flag: '' @ [Typeflag h])),
       t\<lparr> tr := Some (r\<lparr> r_pending := rest \<rparr>) \<rparr>, w)"
  using assms(1)
  by (simp add: untarNext_def Read_def tar_Next_entry [OF assms(2,3)] unknown_not_legacy [OF assms(4)]
        untarFile_unknown_flag [OF assms(4)])

lemma untarFile_not_EOF: "fst (untarFile t f to w) \<noteq> Some EOF"
  by (auto simp: untarFile_def mkdir_def writeNewFile_def writeNewSymbolicLink_def
        writeNewHardLink_def split: option.splits sum.splits if_splits)

lemma untarNext_entry:
  assumes "tr t = Some r" and "r_err r = None"
    and "dropWhile is_meta (r_pending r) = Entry h d # rest"
  shows "\<exists>res w1. untarNext t destination w = (res, t\<lparr> tr := Some (r\<lparr> r_pending := rest \<rparr>) \<rparr>, w1)
           \<and> res \<noteq> Some EOF"
proof -
  obtain hh dd where hd: "handed h d = (hh, dd)" by (cases "handed h d") auto
  let ?f = "\<lparr> File_FileInfo = Some (header_FileInfo hh), File_Header = Some hh,
              File_ReadCloser = Some dd \<rparr>"
  let ?t = "t\<lparr> tr := Some (r\<lparr> r_pending := rest \<rparr>) \<rparr>"
  obtain res w1 where u: "untarFile ?t ?f (Join [destination, Name hh]) w = (res, w1)"
    by (cases "untarFile ?t ?f (Join [destination, Name hh]) w") auto
  with untarFile_not_EOF [of ?t ?f "Join [destination, Name hh]" w]
  have "res \<noteq> Some EOF" by simp
  moreover have "untarNext t destination w = (res, ?t, w1)"
    using assms(1) u by (simp add: untarNext_def Read_def tar_Next_entry [OF assms(2,3)] hd)
  ultimately show ?thesis by blast
qed

lemma untarNext_skip:
  assumes "tr t = Some r" and "r_err r = None" and "r_pending r = x # xs" and "is_meta x"
  shows "untarNext t destination w = untarNext (t\<lparr> tr := Some (r\<lparr> r_pending := xs \<rparr>) \<rparr>) destination w"
  using assms(1)
  by (simp add: untarNext_def Read_def tar_Next_skip [OF assms(2-4)] split: prod.splits sum.splits)

lemma untar_loop_skip:
  assumes "tr t = Some r" and "r_err r = None" and "r_pending r = x # xs" and "is_meta x"
  shows "untar_loop t destination w = untar_loop (t\<lparr> tr := Some (r\<lparr> r_pending := xs \<rparr>) \<rparr>) destination w"
  by (subst untar_loop.simps [of t], subst untar_loop.simps [of "t\<lparr> tr := Some (r\<lparr> r_pending := xs \<rparr>) \<rparr>"])
     (simp add: untarNext_skip [OF assms])

text \<open>
  With the continue-on-error policy disabled, an entry with an unknown type flag that lies
  ahead of the reader, after entries only, makes the loop end with an error: at that entry
  or at an earlier one that fails.
\<close>

lemma untar_loop_aborts_ahead:
  assumes "\<not> ContinueOnError t" and "tr t = Some r" and "r_err r = None"
    and "r_pending r = pre @ Entry h d # rest" and "list_all is_entry pre"
    and "Typeflag h \<notin> known_flags" and "Typeflag h \<notin> meta_flags"
  shows "\<exists>e t1 w1. untar_loop t destination w = Some (Some e, t1, w1)"
  using assms(1-5)
proof (induction pre arbitrary: t r w)
  case Nil
  then have p: "dropWhile is_meta (r_pending r) = Entry h d # rest"
    using assms(7) by simp
  from untarNext_unknown_flag [OF Nil(2) Nil(3) p assms(6), of destination w] Nil(1)
  show ?case by (subst untar_loop.simps) simp
next
  case (Cons x pre)
  then obtain h' d' where x: "x = Entry h' d'" by (cases x) auto
  let ?r = "r\<lparr> r_pending := pre @ Entry h d # rest \<rparr>"
  let ?t = "t\<lparr> tr := Some ?r \<rparr>"
  from Cons(5) have p: "r_pending r = x # (pre @ Entry h d # rest)" by simp
  have ih: "\<exists>e t1 w1'. untar_loop ?t destination w1 = Some (Some e, t1, w1')" for w1
    using Cons(2) Cons(4) Cons(6)
    by (intro Cons.IH [of ?t ?r]) simp_all
  show ?case
  proof (cases "is_meta x")
    case True
    from untar_loop_skip [OF Cons(3) Cons(4) p True, of destination w] ih [of w]
    show ?thesis by simp
  next
    case False
    with p x have q: "dropWhile is_meta (r_pending r) = Entry h' d' # (pre @ Entry h d # rest)"
      by simp
    from untarNext_entry [OF Cons(3) Cons(4) q, of destination w]
    obtain res w1 where n: "untarNext t destination w = (res, ?t, w1)" and ne: "res \<noteq> Some EOF"
      by blast
    show ?thesis
    proof (cases res)
      case None
      have "untar_loop t destination w = untar_loop ?t destination w1"
        by (subst untar_loop.simps) (simp add: n None)
      with ih [of w1] show ?thesis by simp
    next
      case (Some e)
      with ne have "e \<noteq> EOF" by simp
      then have "untar_loop t destination w = Some (Some (Wrapf ''reading file in tar archive: '' e), ?t, w1)"
        using Cons(2) by (subst untar_loop.simps) (simp add: n Some)
      then show ?thesis by blast
    qed
  qed
qed

text \<open>Creating directories leaves the nodes that exist as they are, so a file that could
  be opened before can be opened after, with the same content.\<close>

lemma map_of_filter_other:
  "k \<noteq> k' \<Longrightarrow> map_of (filter (\<lambda>kv. fst kv \<noteq> k') xs) k = map_of xs k"
  by (induction xs) auto

lemma fs_put_keeps:
  assumes "fs_lookup w p = None" and "fs_lookup w q = Some n"
  shows "fs_lookup (fs_put w p m) q = Some n"
proof -
  from assms have "Abs (cwd w) q \<noteq> Abs (cwd w) p" by (auto simp: fs_lookup_def)
  with assms(2) show ?thesis
    by (simp add: fs_lookup_def fs_put_def map_of_filter_other)
qed

lemma mkdir_each_keeps:
  assumes "mkdir_each w ps = Inr w1"
  shows "cwd w1 = cwd w \<and> (\<forall>q n. fs_lookup w q = Some n \<longrightarrow> fs_lookup w1 q = Some n)"
  using assms
proof (induction ps arbitrary: w)
  case Nil
  then show ?case by simp
next
  case (Cons p ps)
  show ?case
  proof (cases "fs_lookup w p")
    case None
    let ?w = "fs_put w p \<lparr> n_mode = ModeDir OR 0x1ED, n_data = Bytes [], n_link = [] \<rparr>"
    from Cons.prems None have "mkdir_each ?w ps = Inr w1" by simp
    from Cons.IH [OF this] have "cwd w1 = cwd ?w"
      and k: "\<And>q n. fs_lookup ?w q = Some n \<Longrightarrow> fs_lookup w1 q = Some n" by auto
    moreover have "cwd ?w = cwd w" by (simp add: fs_put_def)
    ultimately show ?thesis using fs_put_keeps [OF None] by auto
  next
    case (Some n)
    with Cons.prems have "mkdir_each w ps = Inr w1" by (simp split: if_splits)
    from Cons.IH [OF this] show ?thesis .
  qed
qed

lemma follow_keeps:
  assumes "cwd w1 = cwd w" and "\<And>q n. fs_lookup w q = Some n \<Longrightarrow> fs_lookup w1 q = Some n"
    and "follow k w p = Inr n"
  shows "follow k w1 p = Inr n"
  using assms(3)
proof (induction k arbitrary: p)
  case 0
  then show ?case by simp
next
  case (Suc k)
  then obtain m where m: "fs_lookup w p = Some m" by (auto split: option.splits)
  from assms(2) [OF m] have m1: "fs_lookup w1 p = Some m" .
  show ?case
  proof (cases "n_mode m AND ModeSymlink \<noteq> 0")
    case True
    with Suc.prems m have "follow k w (if IsAbs (n_link m) then n_link m
        else Join [Dir (Abs (cwd w) p), n_link m]) = Inr n" by simp
    from Suc.IH [OF this] True m1 show ?thesis
      by (cases "IsAbs (n_link m)") (simp_all add: assms(1))
  next
    case False
    with Suc.prems m m1 show ?thesis by simp
  qed
qed

lemma mkdir_keeps_open:
  assumes "mkdir w p = (None, w1)" and "os_Open w source = Inr d"
  shows "os_Open w1 source = Inr d"
proof -
  from assms(1) have "mkdir_each w (path_prefixes (Abs (cwd w) p)) = Inr w1"
    by (simp add: mkdir_def os_MkdirAll_def split: sum.splits)
  from mkdir_each_keeps [OF this] have c: "cwd w1 = cwd w"
    and k: "\<And>q n. fs_lookup w q = Some n \<Longrightarrow> fs_lookup w1 q = Some n" by auto
  from assms(2) obtain n where n: "follow 40 w source = Inr n" and d: "n_data n = d"
    by (auto simp: os_Open_def split: sum.splits)
  from follow_keeps [OF c k n] d show ?thesis by (simp add: os_Open_def)
qed

text \<open>
  So \<open>Unarchive\<close> with the policy disabled returns an error on every archive that holds such
  an entry before its end, on every handle and every host.
\<close>

lemma Unarchive_aborts_on_unknown_flag:
  assumes "\<not> ContinueOnError t"
    and "os_Open w source = Inr (Tarball (pre @ Entry h d # rest))" and "list_all is_entry pre"
    and "Typeflag h \<notin> known_flags" and "Typeflag h \<notin> meta_flags"
  shows "\<exists>e t1 w1 out. Unarchive t source destination w = Some (Some e, t1, w1, out)"
proof -
  let ?r = "tar_NewReader (Tarball (pre @ Entry h d # rest))"
  have r: "r_err ?r = None" "r_pending ?r = pre @ Entry h d # rest"
    by (simp_all add: tar_NewReader_def)
  have loop: "\<exists>e t1 w1. untar_loop (t\<lparr> tr := Some ?r \<rparr>) dest1 w' = Some (Some e, t1, w1)" for dest1 w'
    using assms(1) by (intro untar_loop_aborts_ahead [OF _ _ r(1) r(2) assms(3) assms(4) assms(5)]) simp_all
  have run: "\<exists>e t1 w1 out.
      (case (if ImplicitTopLevelFolder t then addTopLevelFolder t source destination w'
             else Inr destination) of
         Inl e \<Rightarrow> Some (Some (Wrapf ''scanning source archive: '' e), t, w', [])
       | Inr destination1 \<Rightarrow>
      (case os_Open w' source of
         Inl e \<Rightarrow> Some (Some (Wrapf ''opening source archive: '' e), t, w', [])
       | Inr file \<Rightarrow>
      (case Open t file of
         (Some e, t1) \<Rightarrow> Some (Some (Wrapf ''opening tar archive for reading: '' e), t1, w', [])
       | (None, t1) \<Rightarrow>
      (case untar_loop t1 destination1 w' of
         None \<Rightarrow> None
       | Some (err, t2, w2) \<Rightarrow>
           (case Close t2 of (e, t3, out) \<Rightarrow> Some (err, t3, w2, out)))))) = Some (Some e, t1, w1, out)"
    if o: "os_Open w' source = Inr (Tarball (pre @ Entry h d # rest))" for w'
  proof (cases "if ImplicitTopLevelFolder t then addTopLevelFolder t source destination w'
             else Inr destination")
    case (Inl e)
    then show ?thesis by simp
  next
    case (Inr dest1)
    show ?thesis
    proof (cases "tr t")
      case None
      from loop [of dest1 w'] obtain e t1 w1 where
        l: "untar_loop (t\<lparr> tr := Some ?r \<rparr>) dest1 w' = Some (Some e, t1, w1)" by blast
      obtain e' t3 out where c: "Close t1 = (e', t3, out)" by (cases "Close t1") auto
      from Inr o None l c show ?thesis by (simp add: Open_def)
    next
      case (Some r0)
      with Inr o show ?thesis by (simp add: Open_def)
    qed
  qed
  let ?p = "if \<not> fileExists w destination \<and> MkdirAll t then mkdir w destination else (None, w)"
  obtain e w1 where m: "?p = (e, w1)" by (cases ?p) auto
  show ?thesis
  proof (cases e)
    case (Some e0)
    show ?thesis unfolding Unarchive_def m Some by simp
  next
    case None
    have "os_Open w1 source = Inr (Tarball (pre @ Entry h d # rest))"
    proof (cases "\<not> fileExists w destination \<and> MkdirAll t")
      case True
      with m None have "mkdir w destination = (None, w1)" by simp
      from mkdir_keeps_open [OF this assms(2)] show ?thesis .
    next
      case False
      with m have "w1 = w" by auto
      with assms(2) show ?thesis by simp
    qed
    from run [OF this] show ?thesis
      unfolding Unarchive_def m None by (simp del: split_paired_Ex)
  qed
qed

text \<open>
  With the continue-on-error policy enabled the loop of \<open>Unarchive\<close> has one way to end,
  the end of the archive: it returns no error.
\<close>

lemma untarNext_keeps_policy:
  "untarNext t destination w = (e, t1, w1) \<Longrightarrow> ContinueOnError t1 = ContinueOnError t"
  by (auto simp: untarNext_def Read_def split: option.splits prod.splits sum.splits)

lemma untar_loop_continue:
  assumes "untar_loop t destination w = Some y" and "ContinueOnError t"
  shows "fst y = None"
proof -
  have "ContinueOnError t \<longrightarrow> fst y = None"
  proof (rule untar_loop.raw_induct [where P = "\<lambda>t destination w y. ContinueOnError t \<longrightarrow> fst y = None"
        and t = t and destination = destination and w = w and y = y])
    show "untar_loop t destination w = Some y" by (rule assms(1))
  next
    fix f :: "Tar \<Rightarrow> string \<Rightarrow> world \<Rightarrow> (error option \<times> Tar \<times> world) option"
      and t destination w y
    assume ih: "\<And>t destination w y. f t destination w = Some y \<Longrightarrow> ContinueOnError t \<longrightarrow> fst y = None"
      and step: "(case untarNext t destination w of
          (None, t1, w1) \<Rightarrow> f t1 destination w1
        | (Some err, t1, w1) \<Rightarrow>
            if err = EOF then Some (None, t1, w1)
            else if ContinueOnError t1 then
              f t1 destination (log_Printf w1 (Wrapf ''[ERROR] Reading file in tar archive: '' err))
            else Some (Some (Wrapf ''reading file in tar archive: '' err), t1, w1)) = Some y"
    obtain e t1 w1 where n: "untarNext t destination w = (e, t1, w1)"
      by (cases "untarNext t destination w") auto
    note k = untarNext_keeps_policy [OF n]
    show "ContinueOnError t \<longrightarrow> fst y = None"
    proof
      assume c: "ContinueOnError t"
      show "fst y = None"
      proof (cases e)
        case None
        with step n have "f t1 destination w1 = Some y" by simp
        from ih [OF this] k c show ?thesis by simp
      next
        case (Some err)
        show ?thesis
        proof (cases "err = EOF")
          case True
          with step n Some show ?thesis by auto
        next
          case False
          with step n Some k c
          have "f t1 destination (log_Printf w1 (Wrapf ''[ERROR] Reading file in tar archive: '' err)) = Some y"
            by simp
          from ih [OF this] k c show ?thesis by simp
        qed
      qed
    qed
  qed
  with assms(2) show ?thesis by simp
qed

lemma Unarchive_continue:
  assumes "ContinueOnError t"
  shows "Unarchive t source destination w
           \<noteq> Some (Some (Wrapf ''reading file in tar archive: '' x), t1, w1, out)"
proof
  assume u: "Unarchive t source destination w
           = Some (Some (Wrapf ''reading file in tar archive: '' x), t1, w1, out)"
  then obtain t' dest' w' y where l: "untar_loop t' dest' w' = Some y" and c: "ContinueOnError t'"
    and e: "fst y = Some (Wrapf ''reading file in tar archive: '' x)"
    using assms
    by (auto simp: Unarchive_def Open_def split: prod.splits option.splits sum.splits if_splits)
  from untar_loop_continue [OF l c] e show False by simp
qed

text \<open>
  A malformed header is another matter: the error of the reader is kept, so with the policy
  enabled the loop logs it again and again and does not end.
\<close>

lemma untarNext_malformed:
  assumes "tr t = Some r"
    and "(\<exists>e. r_err r = Some e \<and> e \<noteq> EOF)
         \<or> (r_err r = None \<and> (\<exists>rest. dropWhile is_meta (r_pending r) = Corrupt # rest))"
  shows "\<exists>e. untarNext t destination w = (Some e, t\<lparr> tr := Some (snd (tar_Next r)) \<rparr>, w)
           \<and> e \<noteq> EOF \<and> r_err (snd (tar_Next r)) = Some e"
  using assms
  by (auto simp: untarNext_def Read_def tar_Next_def)

lemma untar_loop_malformed_never_ends:
  assumes "ContinueOnError t" and "tr t = Some r"
    and "(\<exists>e. r_err r = Some e \<and> e \<noteq> EOF)
         \<or> (r_err r = None \<and> (\<exists>rest. dropWhile is_meta (r_pending r) = Corrupt # rest))"
  shows "untar_loop t destination w = None"
proof (cases "untar_loop t destination w")
  case None
  then show ?thesis .
next
  case (Some y)
  have "ContinueOnError t \<longrightarrow> (\<forall>r. tr t = Some r \<longrightarrow>
          \<not> ((\<exists>e. r_err r = Some e \<and> e \<noteq> EOF)
             \<or> (r_err r = None \<and> (\<exists>rest. dropWhile is_meta (r_pending r) = Corrupt # rest))))"
  proof (rule untar_loop.raw_induct [where P = "\<lambda>t destination w y. ContinueOnError t \<longrightarrow>
        (\<forall>r. tr t = Some r \<longrightarrow> \<not> ((\<exists>e. r_err r = Some e \<and> e \<noteq> EOF)
             \<or> (r_err r = None \<and> (\<exists>rest. dropWhile is_meta (r_pending r) = Corrupt # rest))))"
        and t = t and destination = destination and w = w and y = y])
    show "untar_loop t destination w = Some y" by (rule Some)
  next
    fix f :: "Tar \<Rightarrow> string \<Rightarrow> world \<Rightarrow> (error option \<times> Tar \<times> world) option"
      and t destination w y
    assume ih: "\<And>t destination w y. f t destination w = Some y \<Longrightarrow> ContinueOnError t \<longrightarrow>
        (\<forall>r. tr t = Some r \<longrightarrow> \<not> ((\<exists>e. r_err r = Some e \<and> e \<noteq> EOF)
             \<or> (r_err r = None \<and> (\<exists>rest. dropWhile is_meta (r_pending r) = Corrupt # rest))))"
      and step: "(case untarNext t destination w of
          (None, t1, w1) \<Rightarrow> f t1 destination w1
        | (Some err, t1, w1) \<Rightarrow>
            if err = EOF then Some (None, t1, w1)
            else if ContinueOnError t1 then
              f t1 destination (log_Printf w1 (Wrapf ''[ERROR] Reading file in tar archive: '' err))
            else Some (Some (Wrapf ''reading file in tar archive: '' err), t1, w1)) = Some y"
    show "ContinueOnError t \<longrightarrow> (\<forall>r. tr t = Some r \<longrightarrow>
          \<not> ((\<exists>e. r_err r = Some e \<and> e \<noteq> EOF)
             \<or> (r_err r = None \<and> (\<exists>rest. dropWhile is_meta (r_pending r) = Corrupt # rest))))"
    proof (intro impI allI notI)
      fix r
      assume c: "ContinueOnError t" and r: "tr t = Some r"
        and m: "(\<exists>e. r_err r = Some e \<and> e \<noteq> EOF)
             \<or> (r_err r = None \<and> (\<exists>rest. dropWhile is_meta (r_pending r) = Corrupt # rest))"
      from untarNext_malformed [OF r m, of destination w]
      obtain e where n: "untarNext t destination w = (Some e, t\<lparr> tr := Some (snd (tar_Next r)) \<rparr>, w)"
        and e: "e \<noteq> EOF" and r1: "r_err (snd (tar_Next r)) = Some e" by blast
      from step n e c
      have "f (t\<lparr> tr := Some (snd (tar_Next r)) \<rparr>) destination
              (log_Printf w (Wrapf ''[ERROR] Reading file in tar archive: '' e)) = Some y"
        by simp
      from ih [OF this] c r1 e show False by simp
    qed
  qed
  with assms show ?thesis by blast
qed

text \<open>
  C4.  Let an entry have a type flag that is none of those \<open>untarFile\<close> knows and none of
  the meta records that the reader consumes.  With the continue-on-error policy disabled,
  \<open>Unarchive\<close> returns an error on every archive that holds the entry after entries only,
  on every handle and every host.  With the policy enabled, \<open>Unarchive\<close> never returns the
  error of an entry.  When the loop of \<open>Unarchive\<close> reaches the entry, the entry yields an
  error and nothing is written: the unknown-type-flag error, or "file already exists" when
  the path exists and must not be overwritten; with the policy disabled the loop ends there
  with that error, with the policy enabled the error is logged and the loop goes on with
  the next entry.
\<close>

theorem Unarchive_unknown_type_flag:
  assumes "Typeflag h \<notin> known_flags" and "Typeflag h \<notin> meta_flags"
  shows "(\<not> ContinueOnError t \<and> os_Open w source = Inr (Tarball (pre @ Entry h d # rest))
            \<and> list_all is_entry pre \<longrightarrow>
          (\<exists>e t1 w1 out. Unarchive t source destination w = Some (Some e, t1, w1, out)))
     \<and> (ContinueOnError t \<longrightarrow>
          (\<forall>x t1 w1 out. Unarchive t source destination w
             \<noteq> Some (Some (Wrapf ''reading file in tar archive: '' x), t1, w1, out)))
     \<and> (tr t = Some r \<and> r_err r = None \<and> dropWhile is_meta (r_pending r) = Entry h d # rest \<longrightarrow>
          untar_loop t destination w =
            (let to = Join [destination, Name h];
                 e = (if \<not> Mode_IsDir (header_Mode h) \<and> \<not> OverwriteExisting t \<and> fileExists w to
                      then Errorf (''file already exists: '' @ to)
                      else Errorf (Name h @ '': unknown type flag: '' @ [Typeflag h]));
                 t1 = t\<lparr> tr := Some (r\<lparr> r_pending := rest \<rparr>) \<rparr>
             in if ContinueOnError t
                then untar_loop t1 destination
                       (log_Printf w (Wrapf ''[ERROR] Reading file in tar archive: '' e))
                else Some (Some (Wrapf ''reading file in tar archive: '' e), t1, w)))"
proof (intro conjI impI allI)
  assume "\<not> ContinueOnError t \<and> os_Open w source = Inr (Tarball (pre @ Entry h d # rest))
            \<and> list_all is_entry pre"
  then show "\<exists>e t1 w1 out. Unarchive t source destination w = Some (Some e, t1, w1, out)"
    using Unarchive_aborts_on_unknown_flag [OF _ _ _ assms, of t w source pre d rest destination]
    by simp
next
  fix x t1 w1 out
  assume "ContinueOnError t"
  then show "Unarchive t source destination w
       \<noteq> Some (Some (Wrapf ''reading file in tar archive: '' x), t1, w1, out)"
    by (rule Unarchive_continue)
next
  assume a: "tr t = Some r \<and> r_err r = None \<and> dropWhile is_meta (r_pending r) = Entry h d # rest"
  then have a1: "tr t = Some r" and a2: "r_err r = None"
    and a3: "dropWhile is_meta (r_pending r) = Entry h d # rest" by simp_all
  show "untar_loop t destination w =
            (let to = Join [destination, Name h];
                 e = (if \<not> Mode_IsDir (header_Mode h) \<and> \<not> OverwriteExisting t \<and> fileExists w to
                      then Errorf (''file already exists: '' @ to)
                      else Errorf (Name h @ '': unknown type flag: '' @ [Typeflag h]));
                 t1 = t\<lparr> tr := Some (r\<lparr> r_pending := rest \<rparr>) \<rparr>
             in if ContinueOnError t
                then untar_loop t1 destination
                       (log_Printf w (Wrapf ''[ERROR] Reading file in tar archive: '' e))
                else Some (Some (Wrapf ''reading file in tar archive: '' e), t1, w))"
    by (subst untar_loop.simps) (simp add: untarNext_unknown_flag [OF a1 a2 a3 assms(1)] Let_def)
qed

theorem Unarchive_unknown_type_flag_witness:
  "Typeflag (ex_header ''a'' (CHR ''Z'')) \<notin> known_flags \<and>
   Typeflag (ex_header ''a'' (CHR ''Z'')) \<notin> meta_flags \<and>
   os_Open (ex_archive_host ex_unknown_recs) ''in.tar''
     = Inr (Tarball ([] @ Entry (ex_header ''a'' (CHR ''Z'')) (Bytes [])
                        # [Entry (ex_header ''b'' TypeReg) (Bytes []), Trailer])) \<and>
   (\<exists>e t1 w1 out. Unarchive DefaultTar ''in.tar'' ''dest'' (ex_archive_host ex_unknown_recs)
      = Some (Some e, t1, w1, out)) \<and>
   ContinueOnError (DefaultTar\<lparr> ContinueOnError := True \<rparr>) \<and>
   (\<forall>x t1 w1 out. Unarchive (DefaultTar\<lparr> ContinueOnError := True \<rparr>) ''in.tar'' ''dest''
        (ex_archive_host ex_unknown_recs)
      \<noteq> Some (Some (Wrapf ''reading file in tar archive: '' x), t1, w1, out)) \<and>
   tr ex_unknown_handle = Some \<lparr> r_pending = ex_unknown_recs, r_err = None \<rparr> \<and>
   ContinueOnError ex_unknown_handle \<and>
   untar_loop ex_unknown_handle ''dest'' (ex_archive_host ex_unknown_recs)
     = untar_loop ex_unknown_handle_next ''dest''
         (log_Printf (ex_archive_host ex_unknown_recs)
            (Wrapf ''[ERROR] Reading file in tar archive: '' (Errorf ''a: unknown type flag: Z'')))"
proof -
  let ?h = "ex_header ''a'' (CHR ''Z'')"
  let ?rest = "[Entry (ex_header ''b'' TypeReg) (Bytes []), Trailer]"
  let ?w = "ex_archive_host ex_unknown_recs"
  let ?r = "\<lparr> r_pending = ex_unknown_recs, r_err = None \<rparr>"
  have k: "Typeflag ?h \<notin> known_flags"
    by (simp add: ex_header_def known_flags_def TypeDir_def TypeReg_def TypeRegA_def TypeChar_def
          TypeBlock_def TypeFifo_def TypeSymlink_def TypeLink_def TypeXGlobalHeader_def)
  have m: "Typeflag ?h \<notin> meta_flags"
    by (simp add: ex_header_def meta_flags_def TypeXHeader_def TypeGNULongName_def TypeGNULongLink_def)
  have o: "os_Open ?w ''in.tar'' = Inr (Tarball ([] @ Entry ?h (Bytes []) # ?rest))"
    by code_simp
  have p: "\<not> ContinueOnError DefaultTar" by (simp add: DefaultTar_def)
  have a: "tr ex_unknown_handle = Some ?r" "ContinueOnError ex_unknown_handle"
    "\<not> OverwriteExisting ex_unknown_handle"
    by (simp_all add: ex_unknown_handle_def DefaultTar_def)
  have b: "dropWhile is_meta (r_pending ?r) = Entry ?h (Bytes []) # ?rest"
    using m by (simp add: ex_unknown_recs_def)
  have e: "\<not> fileExists ?w (Join [''dest'', ''a''])"
    by code_simp
  have t1: "ex_unknown_handle\<lparr> tr := Some (?r\<lparr> r_pending := ?rest \<rparr>) \<rparr> = ex_unknown_handle_next"
    by (simp add: ex_unknown_handle_def ex_unknown_handle_next_def)
  note thm1 = Unarchive_unknown_type_flag [OF k m, where t = DefaultTar and w = ?w
      and source = "''in.tar''" and destination = "''dest''" and pre = "[]" and d = "Bytes []"
      and rest = ?rest and r = ?r]
  note thm2 = Unarchive_unknown_type_flag [OF k m, where t = ex_unknown_handle and w = ?w
      and source = "''in.tar''" and destination = "''dest''" and pre = "[]" and d = "Bytes []"
      and rest = ?rest and r = ?r]
  note thm3 = Unarchive_unknown_type_flag [OF k m, where t = "DefaultTar\<lparr> ContinueOnError := True \<rparr>"
      and w = ?w and source = "''in.tar''" and destination = "''dest''" and pre = "[]" and d = "Bytes []"
      and rest = ?rest and r = ?r]
  have q: "ContinueOnError (DefaultTar\<lparr> ContinueOnError := True \<rparr>)" by simp
  from thm3 q have z: "\<forall>x t1 w1 out. Unarchive (DefaultTar\<lparr> ContinueOnError := True \<rparr>) ''in.tar'' ''dest'' ?w
      \<noteq> Some (Some (Wrapf ''reading file in tar archive: '' x), t1, w1, out)"
    by blast
  from thm1 o p have x: "\<exists>e t1 w1 out. Unarchive DefaultTar ''in.tar'' ''dest'' ?w = Some (Some e, t1, w1, out)"
    by simp
  from thm2 a b e t1 have y: "untar_loop ex_unknown_handle ''dest'' ?w
     = untar_loop ex_unknown_handle_next ''dest''
         (log_Printf ?w (Wrapf ''[ERROR] Reading file in tar archive: '' (Errorf ''a: unknown type flag: Z'')))"
    by (simp add: Let_def ex_header_def)
  from k m o x q z a y show ?thesis by simp
qed

text \<open>C4 as stated fails: with the continue-on-error policy enabled, \<open>Unarchive\<close> logs the
  entry with the unknown type flag, unpacks the entry after it and returns no error.\<close>

theorem Unarchive_skips_unknown_flag_counterexample:
  "Unarchive (DefaultTar\<lparr> ContinueOnError := True \<rparr>) ''in.tar'' ''dest''
     (ex_archive_host ex_unknown_recs) \<noteq> None \<and>
   fst (the (Unarchive (DefaultTar\<lparr> ContinueOnError := True \<rparr>) ''in.tar'' ''dest''
     (ex_archive_host ex_unknown_recs))) = None \<and>
   logs (fst (snd (snd (the (Unarchive (DefaultTar\<lparr> ContinueOnError := True \<rparr>) ''in.tar'' ''dest''
     (ex_archive_host ex_unknown_recs))))))
     = [Wrapf ''[ERROR] Reading file in tar archive: '' (Errorf ''a: unknown type flag: Z'')] \<and>
   fileExists (fst (snd (snd (the (Unarchive (DefaultTar\<lparr> ContinueOnError := True \<rparr>) ''in.tar'' ''dest''
     (ex_archive_host ex_unknown_recs)))))) ''dest/b''"
  by code_simp

lemma untarFile_hard_link:
  assumes "Typeflag h = TypeLink"
    and "OverwriteExisting t \<or> Mode_IsDir (header_Mode h) \<or> \<not> fileExists w to"
  shows "untarFile t \<lparr> File_FileInfo = Some (header_FileInfo h), File_Header = Some h, File_ReadCloser = Some d \<rparr> to w
    = writeNewHardLink w to (Join [to, Linkname h])"
  using assms
  by (auto simp: untarFile_def FileInfo_IsDir_def header_FileInfo_def TypeLink_def TypeDir_def
        TypeReg_def TypeRegA_def TypeChar_def TypeBlock_def TypeFifo_def TypeSymlink_def)

text \<open>
  C5.  \<open>untarFile\<close> resolves the link target of a hard-link entry against the entry's own
  destination path: unpacking the file \<open>x\<close> and the hard link \<open>y\<close> to \<open>x\<close> into \<open>dest\<close>
  asks for a link from \<open>dest/y\<close> to \<open>dest/y/x\<close>, which does not exist.  \<open>Unarchive\<close> fails at
  the link and \<open>dest/y\<close> is not created, although \<open>dest/x\<close>, the target resolved against
  the destination root, exists and can be linked.
\<close>

theorem Unarchive_hard_link_target_misresolved:
  "Unarchive DefaultTar ''in.tar'' ''dest'' (ex_archive_host ex_link_recs) \<noteq> None \<and>
   fst (the (Unarchive DefaultTar ''in.tar'' ''dest'' (ex_archive_host ex_link_recs)))
     = Some (Wrapf ''reading file in tar archive: '' (Wrapf ''dest/y: making hard link for: '' ErrNotExist)) \<and>
   fileExists (fst (snd (snd (the (Unarchive DefaultTar ''in.tar'' ''dest'' (ex_archive_host ex_link_recs))))))
     ''dest/x'' \<and>
   \<not> fileExists (fst (snd (snd (the (Unarchive DefaultTar ''in.tar'' ''dest'' (ex_archive_host ex_link_recs))))))
     ''dest/y'' \<and>
   Join [Join [''dest'', ''y''], ''x''] = ''dest/y/x'' \<and>
   Join [''dest'', ''x''] = ''dest/x'' \<and>
   fst (writeNewHardLink
          (fst (snd (snd (the (Unarchive DefaultTar ''in.tar'' ''dest'' (ex_archive_host ex_link_recs))))))
          ''dest/y'' (Join [''dest'', ''x''])) = None"
  by code_simp

section \<open>Packing and unpacking again\<close>

text \<open>
  C10.  \<open>writeWalk\<close> names the root of a walk by the source path itself, joined to a base
  directory that already ends in the name of the source.  Packing the directory \<open>docs\<close>,
  which holds the files \<open>docs\<close> and \<open>readme\<close>, records the directory as \<open>docs/docs/\<close>;
  unpacking the archive into \<open>copy\<close> creates the directory \<open>copy/docs/docs\<close> where the
  source has a regular file, fails at the file with "file already exists", and never
  writes \<open>copy/docs/readme\<close>.
\<close>

theorem round_trip_breaks_on_directory_source:
  "Archive DefaultTar [''docs''] ''out.tar'' ex_host \<noteq> None \<and>
   fst (the (Archive DefaultTar [''docs''] ''out.tar'' ex_host)) = None \<and>
   snd (snd (the (Archive DefaultTar [''docs''] ''out.tar'' ex_host))) = ex_packed \<and>
   Unarchive DefaultTar ''out.tar'' ''copy'' ex_packed \<noteq> None \<and>
   fst (the (Unarchive DefaultTar ''out.tar'' ''copy'' ex_packed))
     = Some (Wrapf ''reading file in tar archive: '' (Errorf ''file already exists: copy/docs/docs'')) \<and>
   fs_lookup ex_host ''docs/docs'' = Some (ex_file_node (Bytes [1, 2, 3])) \<and>
   fs_lookup (fst (snd (snd (the (Unarchive DefaultTar ''out.tar'' ''copy'' ex_packed))))) ''copy/docs/docs''
     = Some ex_dir_node \<and>
   fileExists ex_host ''docs/readme'' \<and>
   \<not> fileExists (fst (snd (snd (the (Unarchive DefaultTar ''out.tar'' ''copy'' ex_packed))))) ''copy/docs/readme''"
  by code_simp

end
